theory Spec2Isabelle
  imports Complex_Main
begin

section \<open>JavaScript strings and errors\<close>

text \<open>
  A JavaScript string is a sequence of code units. The model uses \<^typ>\<open>string\<close>: every
  \<^typ>\<open>char\<close> is one code unit below 256 (the Latin-1 range), which covers every literal of
  the program. The string methods the program calls are defined here with the meaning
  they have in ECMAScript on such strings. Writing to the console is not modelled: it
  changes no result and no request.
\<close>

text \<open>\<^verbatim>\<open>s.startsWith(p)\<close>\<close>

fun startsWith :: "string \<Rightarrow> string \<Rightarrow> bool" where
  "startsWith s [] = True"
| "startsWith [] (p # ps) = False"
| "startsWith (c # cs) (p # ps) = (c = p \<and> startsWith cs ps)"

text \<open>\<^verbatim>\<open>s.endsWith(p)\<close>\<close>

definition endsWith :: "string \<Rightarrow> string \<Rightarrow> bool" where
  "endsWith s p = startsWith (rev s) (rev p)"

text \<open>\<^verbatim>\<open>s.includes(t)\<close>: \<open>t\<close> occurs in \<open>s\<close> as a contiguous, case-sensitive substring.\<close>

fun includes_js :: "string \<Rightarrow> string \<Rightarrow> bool" where
  "includes_js [] t = (t = [])"
| "includes_js (c # cs) t = (startsWith (c # cs) t \<or> includes_js cs t)"

text \<open>
  White space and line terminators that \<^verbatim>\<open>trim\<close> removes, among the code units below 256:
  TAB, LF, VT, FF, CR, SPACE and NO-BREAK SPACE.
\<close>

definition isWhiteSpace :: "char \<Rightarrow> bool" where
  "isWhiteSpace c = (c \<in> set [CHR 0x09, CHR 0x0A, CHR 0x0B, CHR 0x0C, CHR 0x0D, CHR 0x20, CHR 0xA0])"

definition trim :: "string \<Rightarrow> string" where
  "trim s = rev (dropWhile isWhiteSpace (rev (dropWhile isWhiteSpace s)))"

text \<open>\<^verbatim>\<open>s.toLowerCase()\<close> on code units below 256: A-Z and the accented capitals
  U+00C0..U+00DE (without the multiplication sign U+00D7) move up by 32.\<close>

definition lowerChar :: "char \<Rightarrow> char" where
  "lowerChar c =
     (let n = (of_char c :: nat)
      in if (65 \<le> n \<and> n \<le> 90) \<or> (192 \<le> n \<and> n \<le> 222 \<and> n \<noteq> 215)
         then char_of (n + 32) else c)"

definition toLowerCase :: "string \<Rightarrow> string" where
  "toLowerCase s = map lowerChar s"

text \<open>\<^verbatim>\<open>s.split(sep)\<close> for a separator of one code unit: never an empty array.\<close>

fun split_js :: "char \<Rightarrow> string \<Rightarrow> string list" where
  "split_js sep [] = [[]]"
| "split_js sep (c # cs) =
     (if c = sep then [] # split_js sep cs
      else (case split_js sep cs of
              [] \<Rightarrow> [[c]]
            | seg # segs \<Rightarrow> (c # seg) # segs))"

text \<open>\<^verbatim>\<open>xs.pop()\<close> as a value: the last element, \<open>undefined\<close> on an empty array.\<close>

fun pop :: "'a list \<Rightarrow> 'a option" where
  "pop [] = None"
| "pop (x # xs) = Some (last (x # xs))"

text \<open>The decimal digits of a non-negative integer, as a template literal prints it.\<close>

definition digitChar :: "nat \<Rightarrow> char" where
  "digitChar d = char_of (48 + d)"

function showNat :: "nat \<Rightarrow> string" where
  "showNat n = (if n < 10 then [digitChar n] else showNat (n div 10) @ [digitChar (n mod 10)])"
  by pat_completeness auto
termination
  by (relation "measure id") auto

declare showNat.simps [simp del]

text \<open>A thrown \<^verbatim>\<open>Error\<close> object; the program reads nothing of it but the message.\<close>

datatype js_error = JsError (message: string)


section \<open>The fallback orchestrator\<close>

text \<open>
  The two providers are outside the program. \<open>gemini prompt\<close> is the outcome of
  \<^verbatim>\<open>geminiModel.generateContent(prompt)\<close> followed by \<^verbatim>\<open>result.response.text()\<close>: the text,
  or the error thrown. \<open>groq prompt\<close> is the outcome of \<^verbatim>\<open>callGroqAPI(prompt)\<close>, which makes
  one HTTP request: the text it returns, or the error it throws (the request fails, the
  response is not ok, or its body cannot be read). Every request that leaves the program
  is recorded as an event, in the order of the requests.
\<close>

type_synonym provider = "string \<Rightarrow> js_error + string"

datatype ai_event = GeminiRequest string | GroqRequest string

definition callGemini :: "provider \<Rightarrow> string \<Rightarrow> (js_error + string) \<times> ai_event list" where
  "callGemini gemini prompt = (gemini prompt, [GeminiRequest prompt])"

definition callGroqAPI :: "provider \<Rightarrow> string \<Rightarrow> (js_error + string) \<times> ai_event list" where
  "callGroqAPI groq prompt = (groq prompt, [GroqRequest prompt])"

definition isQuotaError :: "string \<Rightarrow> bool" where
  "isQuotaError msg =
     (includes_js msg ''quota'' \<or>
      includes_js msg ''429'' \<or>
      includes_js msg ''rate'' \<or>
      includes_js msg ''Resource has been exhausted'' \<or>
      includes_js msg ''not found'' \<or>
      includes_js msg ''not supported'')"

definition generateWithFallback ::
  "provider \<Rightarrow> provider \<Rightarrow> string \<Rightarrow> (js_error + string) \<times> ai_event list" where
  "generateWithFallback gemini groq prompt =
     (case callGemini gemini prompt of
        (Inr text, ev1) \<Rightarrow> (Inr text, ev1)
      | (Inl geminiError, ev1) \<Rightarrow>
          if isQuotaError (message geminiError) then
            (case callGroqAPI groq prompt of
               (Inr groqResponse, ev2) \<Rightarrow> (Inr groqResponse, ev1 @ ev2)
             | (Inl groqError, ev2) \<Rightarrow>
                 (Inl (JsError (''Both AI providers failed. Gemini: '' @ message geminiError
                                @ '', Groq: '' @ message groqError)),
                  ev1 @ ev2))
          else
            (case callGroqAPI groq prompt of
               (Inr groqResponse, ev2) \<Rightarrow> (Inr groqResponse, ev1 @ ev2)
             | (Inl groqError, ev2) \<Rightarrow> (Inl geminiError, ev1 @ ev2)))"

definition geminiRequests :: "ai_event list \<Rightarrow> nat" where
  "geminiRequests evs = length (filter (\<lambda>e. case e of GeminiRequest _ \<Rightarrow> True | GroqRequest _ \<Rightarrow> False) evs)"

definition groqRequests :: "ai_event list \<Rightarrow> nat" where
  "groqRequests evs = length (filter (\<lambda>e. case e of GroqRequest _ \<Rightarrow> True | GeminiRequest _ \<Rightarrow> False) evs)"


section \<open>Files\<close>

text \<open>What the program reads of a browser \<^verbatim>\<open>File\<close>: its name, its declared content type
  and its size in bytes.\<close>

record js_file =
  file_name :: string
  file_type :: string
  file_size :: nat


section \<open>The OCR router\<close>

text \<open>
  PDF.js and Tesseract.js are outside the program. An \<open>ocr_env\<close> gives the outcome of
  each step the program asks of them:
  \<^item> \<open>openPdf file\<close>: loading the libraries, reading the file and
    \<^verbatim>\<open>getDocument\<close>; the number of pages, or the error thrown;
  \<^item> \<open>recognizePage file n\<close>: \<^verbatim>\<open>getPage(n)\<close>, rendering to a canvas and
    \<^verbatim>\<open>Tesseract.recognize\<close> on the rendered page; the text, or the error thrown;
  \<^item> \<open>recognizeImage file\<close>: loading Tesseract.js and \<^verbatim>\<open>Tesseract.recognize(file)\<close>; the
    text and the confidence, or the error thrown;
  \<^item> \<open>toFixed1 c\<close>: \<^verbatim>\<open>c.toFixed(1)\<close>.
  Each step taken is recorded as an event.
\<close>

record ocr_env =
  openPdf :: "js_file \<Rightarrow> js_error + nat"
  recognizePage :: "js_file \<Rightarrow> nat \<Rightarrow> js_error + string"
  recognizeImage :: "js_file \<Rightarrow> js_error + string \<times> rat"
  toFixed1 :: "rat \<Rightarrow> string"

datatype ocr_event = OpenPdf | RecognizePage nat | RecognizeImage

record extraction =
  ex_success :: bool
  extracted_text :: string
  ex_message :: string
  file_info :: js_file
  confidence :: "rat option"

definition doOpenPdf :: "ocr_env \<Rightarrow> js_file \<Rightarrow> (js_error + nat) \<times> ocr_event list" where
  "doOpenPdf env file = (openPdf env file, [OpenPdf])"

definition doRecognizePage ::
  "ocr_env \<Rightarrow> js_file \<Rightarrow> nat \<Rightarrow> (js_error + string) \<times> ocr_event list" where
  "doRecognizePage env file pageNum = (recognizePage env file pageNum, [RecognizePage pageNum])"

definition doRecognizeImage ::
  "ocr_env \<Rightarrow> js_file \<Rightarrow> (js_error + string \<times> rat) \<times> ocr_event list" where
  "doRecognizeImage env file = (recognizeImage env file, [RecognizeImage])"

text \<open>What one page adds to \<^verbatim>\<open>allExtractedText\<close>.\<close>

definition pageBlock :: "nat \<Rightarrow> string \<Rightarrow> string" where
  "pageBlock pageNum text =
     [CHR 0x0A] @ ''--- Page '' @ showNat pageNum @ '' ---'' @ [CHR 0x0A] @ trim text @ [CHR 0x0A]"

text \<open>The loop \<^verbatim>\<open>for (pageNum = 1; pageNum <= pdf.numPages; pageNum++)\<close>, entered at
  \<open>pageNum\<close> with the text collected so far. A page whose step throws ends the loop.\<close>

function pdfPages ::
  "ocr_env \<Rightarrow> js_file \<Rightarrow> nat \<Rightarrow> nat \<Rightarrow> string \<Rightarrow> (js_error + string) \<times> ocr_event list" where
  "pdfPages env file numPages pageNum allExtractedText =
     (if pageNum \<le> numPages then
        (case doRecognizePage env file pageNum of
           (Inl e, ev1) \<Rightarrow> (Inl e, ev1)
         | (Inr text, ev1) \<Rightarrow>
             (case pdfPages env file numPages (pageNum + 1)
                     (if trim text \<noteq> [] then allExtractedText @ pageBlock pageNum text
                      else allExtractedText) of
                (r, ev2) \<Rightarrow> (r, ev1 @ ev2)))
      else (Inr allExtractedText, []))"
  by pat_completeness auto
termination
  by (relation "measure (\<lambda>(env, file, numPages, pageNum, acc). Suc numPages - pageNum)") auto

declare pdfPages.simps [simp del]

text \<open>The \<^verbatim>\<open>catch\<close> block of the PDF path.\<close>

definition pdfCatch :: "js_error \<Rightarrow> js_error" where
  "pdfCatch error =
     (if includes_js (message error) ''Invalid PDF''
      then JsError ''Invalid or corrupted PDF file. Please try a different document.''
      else JsError (''Failed to extract text from PDF: '' @ message error))"

definition extractTextFromPDF ::
  "ocr_env \<Rightarrow> js_file \<Rightarrow> (js_error + extraction) \<times> ocr_event list" where
  "extractTextFromPDF env file =
     (case doOpenPdf env file of
        (Inl e, ev1) \<Rightarrow> (Inl (pdfCatch e), ev1)
      | (Inr numPages, ev1) \<Rightarrow>
          (case pdfPages env file numPages 1 [] of
             (Inl e, ev2) \<Rightarrow> (Inl (pdfCatch e), ev1 @ ev2)
           | (Inr allExtractedText, ev2) \<Rightarrow>
               if trim allExtractedText = [] then
                 (Inl (pdfCatch (JsError
                    ''No text was extracted from the PDF. Please ensure the document contains readable text.'')),
                  ev1 @ ev2)
               else
                 (Inr \<lparr> ex_success = True,
                        extracted_text = trim allExtractedText,
                        ex_message = ''Text extracted successfully from PDF using client-side OCR'',
                        file_info = file,
                        confidence = None \<rparr>,
                  ev1 @ ev2)))"

text \<open>The \<^verbatim>\<open>catch\<close> block of the image path.\<close>

definition imageCatch :: "js_error \<Rightarrow> js_error" where
  "imageCatch error =
     (if includes_js (message error) ''timeout'' then
        JsError ''OCR processing timed out. Please try again with a smaller file.''
      else if includes_js (message error) ''worker'' then
        JsError ''OCR worker failed to initialize. Please refresh the page and try again.''
      else if includes_js (message error) ''invalid'' \<or> includes_js (message error) ''corrupt'' then
        JsError ''Invalid or corrupted image file. Please try a different image.''
      else if startsWith (message error) ''Unsupported file type'' \<or>
              startsWith (message error) ''File size too large'' \<or>
              startsWith (message error) ''No text was extracted'' then
        error
      else
        JsError (''Failed to extract text from the image: ''
                 @ (if message error = [] then ''Unknown error occurred'' else message error)
                 @ ''. Please try with a different image.''))"

definition maxImageSize :: nat where
  "maxImageSize = 10 * 1024 * 1024"

definition extractTextFromImage ::
  "ocr_env \<Rightarrow> js_file \<Rightarrow> (js_error + extraction) \<times> ocr_event list" where
  "extractTextFromImage env file =
     (if file_size file > maxImageSize then
        (Inl (JsError ''File size too large. Please use files smaller than 10MB.''), [])
      else
        (case doRecognizeImage env file of
           (Inl e, ev1) \<Rightarrow> (Inl (imageCatch e), ev1)
         | (Inr (text, conf), ev1) \<Rightarrow>
             if text = [] \<or> length (trim text) = 0 then
               (Inl (imageCatch (JsError
                  ''No text was extracted from the image. Please ensure the image contains readable text.'')),
                ev1)
             else
               (Inr \<lparr> ex_success = True,
                      extracted_text = trim text,
                      ex_message = ''Text extracted successfully using Tesseract.js (confidence: ''
                                   @ toFixed1 env conf @ ''%)'',
                      file_info = file,
                      confidence = Some conf \<rparr>,
                ev1)))"

definition supportedImageTypes :: "string list" where
  "supportedImageTypes = [''image/jpeg'', ''image/jpg'', ''image/png'', ''image/gif'', ''image/webp'']"

definition supportedDocumentTypes :: "string list" where
  "supportedDocumentTypes = [''application/pdf'']"

definition allSupportedTypes :: "string list" where
  "allSupportedTypes = supportedImageTypes @ supportedDocumentTypes"

definition extractText :: "ocr_env \<Rightarrow> js_file \<Rightarrow> (js_error + extraction) \<times> ocr_event list" where
  "extractText env file =
     (if file_type file \<notin> set allSupportedTypes then
        (Inl (JsError (''Unsupported file type: '' @ file_type file
                       @ ''. Please use JPEG, PNG, GIF, WebP images or PDF documents.'')),
         [])
      else if file_type file \<in> set supportedDocumentTypes then extractTextFromPDF env file
      else extractTextFromImage env file)"


section \<open>Validation of a submission file\<close>

text \<open>The object \<^verbatim>\<open>{ valid, error? }\<close>; the field \<open>error\<close> is \<open>validation_error\<close> here.\<close>

record validation =
  valid :: bool
  validation_error :: "string option"

text \<open>\<^verbatim>\<open>file.name.split('.').pop()?.toLowerCase() || ''\<close>\<close>

definition fileExtension :: "string \<Rightarrow> string" where
  "fileExtension name =
     (case pop (split_js (CHR ''.'') name) of
        None \<Rightarrow> []
      | Some seg \<Rightarrow> if toLowerCase seg = [] then [] else toLowerCase seg)"

definition allowedTypes :: "string list" where
  "allowedTypes = [''application/pdf'', ''image/png'', ''image/jpeg'', ''image/jpg'',
                   ''image/gif'', ''image/webp'', ''image/avif'']"

definition allowedSubmissionExtensions :: "string list" where
  "allowedSubmissionExtensions = [''pdf'', ''png'', ''jpg'', ''jpeg'', ''gif'', ''webp'', ''avif'']"

definition maxSize :: nat where
  "maxSize = 10 * 1024 * 1024"

definition validateSubmissionFile :: "js_file \<Rightarrow> validation" where
  "validateSubmissionFile file =
     (if file_size file > maxSize then
        \<lparr> valid = False, validation_error = Some ''File size exceeds 10MB limit'' \<rparr>
      else
        (let isValidType = (file_type file \<in> set allowedTypes \<or>
                            fileExtension (file_name file) \<in> set allowedSubmissionExtensions)
         in if \<not> isValidType then
              \<lparr> valid = False, validation_error = Some ''File type not supported. Use PDF or images.'' \<rparr>
            else \<lparr> valid = True, validation_error = None \<rparr>))"


section \<open>Submission grading\<close>

text \<open>
  A JavaScript number is a finite value, an infinity or \<open>NaN\<close>; the program does no
  arithmetic on numbers, it only tests them for truth and passes them on.
\<close>

datatype js_number = Num rat | NaN | PosInfinity | NegInfinity

text \<open>The values \<^verbatim>\<open>JSON.parse\<close> returns. An object is the list of its properties.\<close>

datatype json =
    JNull
  | JBool bool
  | JNum js_number
  | JStr string
  | JArr "json list"
  | JObj "(string \<times> json) list"

text \<open>
  The parts of the JavaScript runtime the grading code calls and the program does not
  define: \<^verbatim>\<open>JSON.parse\<close> (the value, or the \<^verbatim>\<open>SyntaxError\<close> thrown),
  \<^verbatim>\<open>JSON.stringify\<close>, and the conversion to a number of a string, an array or an object
  (which can throw, when neither \<^verbatim>\<open>valueOf\<close> nor \<^verbatim>\<open>toString\<close> is callable).
\<close>

record js_runtime =
  JSON_parse :: "string \<Rightarrow> js_error + json"
  JSON_stringify :: "json \<Rightarrow> string"
  ToNumber :: "json \<Rightarrow> js_error + js_number"

text \<open>Truthiness: \<^verbatim>\<open>null\<close>, \<^verbatim>\<open>false\<close>, zero, \<open>NaN\<close> and the empty string are falsy.\<close>

fun truthy :: "json \<Rightarrow> bool" where
  "truthy JNull = False"
| "truthy (JBool b) = b"
| "truthy (JNum n) = (n \<noteq> Num 0 \<and> n \<noteq> NaN)"
| "truthy (JStr s) = (s \<noteq> [])"
| "truthy (JArr xs) = True"
| "truthy (JObj kvs) = True"

text \<open>\<^verbatim>\<open>a || b\<close> on property values, where \<open>None\<close> is \<^verbatim>\<open>undefined\<close>.\<close>

definition js_or :: "json option \<Rightarrow> json option \<Rightarrow> json option" where
  "js_or a b = (case a of None \<Rightarrow> b | Some v \<Rightarrow> if truthy v then a else b)"

text \<open>\<^verbatim>\<open>a || d\<close> with a literal \<open>d\<close> as the last operand.\<close>

definition orDefault :: "json option \<Rightarrow> json \<Rightarrow> json" where
  "orDefault a d = (case a of None \<Rightarrow> d | Some v \<Rightarrow> if truthy v then v else d)"

text \<open>
  Reading properties of a parsed value: \<^verbatim>\<open>null\<close> throws a \<^verbatim>\<open>TypeError\<close>; an object gives
  its property, or \<^verbatim>\<open>undefined\<close>; a number, a boolean, a string or an array has none of
  the ten properties the program reads (\<open>grade\<close>, \<open>marks\<close>, \<open>final_marks\<close>, \<open>score\<close>,
  \<open>feedback\<close>, \<open>review\<close>, \<open>comments\<close>, \<open>strengths\<close>, \<open>improvements\<close>,
  \<open>areas_for_improvement\<close>).
\<close>

fun props :: "json \<Rightarrow> js_error + (string \<Rightarrow> json option)" where
  "props JNull = Inl (JsError ''Cannot read properties of null'')"
| "props (JObj kvs) = Inr (map_of kvs)"
| "props (JBool b) = Inr (\<lambda>k. None)"
| "props (JNum n) = Inr (\<lambda>k. None)"
| "props (JStr s) = Inr (\<lambda>k. None)"
| "props (JArr xs) = Inr (\<lambda>k. None)"

text \<open>\<^verbatim>\<open>Number(v)\<close>\<close>

definition Number :: "js_runtime \<Rightarrow> json \<Rightarrow> js_error + js_number" where
  "Number rt v =
     (case v of
        JNum n \<Rightarrow> Inr n
      | JBool b \<Rightarrow> Inr (Num (if b then 1 else 0))
      | JNull \<Rightarrow> Inr (Num 0)
      | JStr s \<Rightarrow> ToNumber rt v
      | JArr xs \<Rightarrow> ToNumber rt v
      | JObj kvs \<Rightarrow> ToNumber rt v)"

record grading =
  success :: bool
  grade :: js_number
  feedback :: json
  strengths :: "json option"
  improvements :: "json option"
  final_marks :: js_number
  review :: json
  grading_message :: string

text \<open>Removing the Markdown code fence around the response.\<close>

definition cleanedResult :: "string \<Rightarrow> string" where
  "cleanedResult gradingResult =
     (let c0 = trim gradingResult;
          c1 = (if startsWith c0 ''```json'' then drop 7 c0
                else if startsWith c0 ''```'' then drop 3 c0
                else c0);
          c2 = (if endsWith c1 ''```'' then take (length c1 - 3) c1 else c1)
      in trim c2)"

text \<open>The result of the inner \<^verbatim>\<open>catch\<close> block.\<close>

definition textFormat :: "string \<Rightarrow> grading" where
  "textFormat gradingResult =
     \<lparr> success = True,
       grade = Num 0,
       feedback = JStr gradingResult,
       strengths = None,
       improvements = None,
       final_marks = Num 0,
       review = JStr gradingResult,
       grading_message = ''Submission graded successfully (text format)'' \<rparr>"

text \<open>The inner \<^verbatim>\<open>try\<close> of \<^verbatim>\<open>gradeSubmission\<close>: whatever is thrown in it, by
  \<^verbatim>\<open>JSON.parse\<close>, by reading a property of \<^verbatim>\<open>null\<close> or by \<^verbatim>\<open>Number\<close>, is caught.\<close>

definition parseGrading :: "js_runtime \<Rightarrow> string \<Rightarrow> grading" where
  "parseGrading rt gradingResult =
     (case JSON_parse rt (cleanedResult gradingResult) of
        Inl parseError \<Rightarrow> textFormat gradingResult
      | Inr parsedResult \<Rightarrow>
          (case props parsedResult of
             Inl parseError \<Rightarrow> textFormat gradingResult
           | Inr field \<Rightarrow>
               (let gradeValue =
                      orDefault (js_or (js_or (js_or (field ''grade'') (field ''marks''))
                                              (field ''final_marks''))
                                       (field ''score''))
                                (JNum (Num 0));
                    feedbackValue =
                      orDefault (js_or (js_or (field ''feedback'') (field ''review''))
                                       (field ''comments''))
                                (JStr ''No feedback provided'')
                in (case Number rt gradeValue of
                      Inl parseError \<Rightarrow> textFormat gradingResult
                    | Inr g \<Rightarrow>
                        \<lparr> success = True,
                          grade = g,
                          feedback = feedbackValue,
                          strengths = Some (orDefault (field ''strengths'') (JStr [])),
                          improvements =
                            Some (orDefault (js_or (field ''improvements'')
                                                   (field ''areas_for_improvement''))
                                            (JStr [])),
                          final_marks = g,
                          review = feedbackValue,
                          grading_message = ''Submission graded successfully'' \<rparr>))))"

definition joinLines :: "string list \<Rightarrow> string" where
  "joinLines ls = concat (map (\<lambda>l. l @ [CHR 0x0A]) (butlast ls)) @ last ls"

definition gradingPrompt ::
  "js_runtime \<Rightarrow> string option \<Rightarrow> json \<Rightarrow> string option \<Rightarrow> string option \<Rightarrow> string" where
  \<open>gradingPrompt rt ocrText generatedContent gradingCriteria customInstructions =
     joinLines [''Please grade the following student submission based on the provided criteria:'', '''', '''']
     @ (if truthy generatedContent then
          joinLines [''Assignment Content:'',
                     (case generatedContent of JStr s \<Rightarrow> s | _ \<Rightarrow> JSON_stringify rt generatedContent),
                     '''', '''']
        else [])
     @ (case ocrText of
          None \<Rightarrow> []
        | Some t \<Rightarrow> if t = [] then []
                    else joinLines [''Student Submission (OCR Text):'', t, '''', ''''])
     @ (case gradingCriteria of
          None \<Rightarrow> []
        | Some t \<Rightarrow> if t = [] then []
                    else joinLines [''Grading Criteria:'', t, '''', ''''])
     @ (case customInstructions of
          None \<Rightarrow> []
        | Some t \<Rightarrow> if t = [] then []
                    else joinLines [''Additional Instructions:'', t, '''', ''''])
     @ joinLines [''Please provide:'',
                  ''1. A numerical grade (0-100)'',
                  ''2. Detailed feedback explaining the grade'',
                  ''3. Areas for improvement'',
                  ''4. Strengths in the submission'',
                  '''',
                  ''Format your response as JSON with the following structure:'',
                  ''{'',
                  ''  "grade": <numerical_grade>,'',
                  ''  "feedback": "<detailed_feedback>",'',
                  ''  "strengths": "<identified_strengths>",'',
                  ''  "improvements": "<areas_for_improvement>"'',
                  ''}'']\<close>

definition gradeSubmission ::
  "js_runtime \<Rightarrow> provider \<Rightarrow> provider \<Rightarrow> string \<Rightarrow> string option \<Rightarrow> json \<Rightarrow> string option
     \<Rightarrow> string option \<Rightarrow> (js_error + grading) \<times> ai_event list" where
  "gradeSubmission rt gemini groq gradingMode ocrText generatedContent gradingCriteria
       customInstructions =
     (case generateWithFallback gemini groq
             (gradingPrompt rt ocrText generatedContent gradingCriteria customInstructions) of
        (Inl error, evs) \<Rightarrow> (Inl (JsError (''Failed to grade submission: '' @ message error)), evs)
      | (Inr gradingResult, evs) \<Rightarrow> (Inr (parseGrading rt gradingResult), evs))"


section \<open>The meeting view\<close>

text \<open>
  The component with the embedded meeting (the one that listens for messages of the
  embedded page). Its state is the four \<^verbatim>\<open>useState\<close> cells; a handler maps the state to
  the state after it, with the requests to the backend and the notifications it made.
\<close>

record meeting =
  meeting_id :: string
  code :: string
  title :: string
  host_id :: string

record view_state =
  activeMeeting :: "meeting option"
  isLoading :: bool
  isStarting :: bool
  showMeeting :: bool

record meeting_props =
  classId :: string
  isTeacher :: bool
  hasOnClose :: bool

datatype ui_effect =
    GetActiveClassMeeting string
  | EndMeeting string
  | ToastSuccess string
  | ToastError string
  | OnClose

text \<open>\<^verbatim>\<open>onClose?.()\<close>\<close>

definition callOnClose :: "meeting_props \<Rightarrow> ui_effect list" where
  "callOnClose p = (if hasOnClose p then [OnClose] else [])"

text \<open>The listener for \<^verbatim>\<open>message\<close> events; \<open>dataType\<close> is \<^verbatim>\<open>event.data?.type\<close> when that
  is a string, and \<open>None\<close> otherwise.\<close>

definition handleMessage ::
  "meeting_props \<Rightarrow> string option \<Rightarrow> view_state \<Rightarrow> view_state \<times> ui_effect list" where
  "handleMessage p dataType s =
     (if dataType = Some ''MEETING_ENDED'' then
        (s\<lparr> showMeeting := False, activeMeeting := None \<rparr>,
         [ToastSuccess ''Meeting ended''] @ callOnClose p)
      else (s, []))"

text \<open>The End button; \<open>endMeeting mid\<close> is the error \<^verbatim>\<open>await endMeeting(mid)\<close> throws, if any.\<close>

definition handleEndMeeting ::
  "(string \<Rightarrow> js_error option) \<Rightarrow> meeting_props \<Rightarrow> view_state \<Rightarrow> view_state \<times> ui_effect list" where
  "handleEndMeeting endMeeting p s =
     (case activeMeeting s of
        None \<Rightarrow> (s, [])
      | Some m \<Rightarrow>
          (case endMeeting (meeting_id m) of
             Some err \<Rightarrow> (s, [EndMeeting (meeting_id m), ToastError ''Failed to end meeting''])
           | None \<Rightarrow>
               (s\<lparr> showMeeting := False, activeMeeting := None \<rparr>,
                [EndMeeting (meeting_id m), ToastSuccess ''Meeting ended''] @ callOnClose p)))"

text \<open>The poll of the backend; \<open>getActive cid\<close> is the \<^verbatim>\<open>{data, error}\<close> it answers.\<close>

definition checkActiveMeeting ::
  "(string \<Rightarrow> meeting option \<times> js_error option) \<Rightarrow> meeting_props \<Rightarrow> view_state
     \<Rightarrow> view_state \<times> ui_effect list" where
  "checkActiveMeeting getActive p s =
     (case getActive (classId p) of
        (data, error) \<Rightarrow>
          ((if error = None \<and> data \<noteq> None then s\<lparr> activeMeeting := data \<rparr> else s)
             \<lparr> isLoading := False \<rparr>,
           [GetActiveClassMeeting (classId p)]))"

definition handleJoinMeeting :: "view_state \<Rightarrow> view_state" where
  "handleJoinMeeting s = (if activeMeeting s \<noteq> None then s\<lparr> showMeeting := True \<rparr> else s)"

text \<open>Whether a handler asked the backend for the active meeting.\<close>

definition polls :: "ui_effect list \<Rightarrow> bool" where
  "polls fx = (\<exists>e \<in> set fx. case e of GetActiveClassMeeting c \<Rightarrow> True | _ \<Rightarrow> False)"


section \<open>The claims' own words, and sample environments\<close>

text \<open>
  The specification describes the grade as the first \<^emph>\<open>present\<close> of four fields. The two
  readings of "first" are written down here, independently of \<open>parseGrading\<close>:
  \<open>firstPresent\<close> takes the first field the object has, \<open>firstTruthy\<close> the first field whose
  value is truthy; both give \<open>d\<close> when there is none.
\<close>

definition firstPresent :: "(string \<Rightarrow> json option) \<Rightarrow> string list \<Rightarrow> json \<Rightarrow> json" where
  "firstPresent field names d = (case List.map_filter field names of [] \<Rightarrow> d | v # vs \<Rightarrow> v)"

definition firstTruthy :: "(string \<Rightarrow> json option) \<Rightarrow> string list \<Rightarrow> json \<Rightarrow> json" where
  "firstTruthy field names d =
     (case filter truthy (List.map_filter field names) of [] \<Rightarrow> d | v # vs \<Rightarrow> v)"

text \<open>The fields of a parsed value, in the claim's sense: the properties of an object; a
  value that is not an object has none.\<close>

definition fieldsOf :: "json \<Rightarrow> string \<Rightarrow> json option" where
  "fieldsOf v k = (case v of JObj kvs \<Rightarrow> map_of kvs k | _ \<Rightarrow> None)"

text \<open>Providers for the examples: one that always throws, one that always answers.\<close>

definition failingWith :: "string \<Rightarrow> provider" where
  "failingWith msg = (\<lambda>prompt. Inl (JsError msg))"

definition answering :: "string \<Rightarrow> provider" where
  "answering text = (\<lambda>prompt. Inr text)"

text \<open>A runtime for the examples. \<open>sampleParse\<close> is \<^verbatim>\<open>JSON.parse\<close> on the five texts the
  examples parse: three objects, \<open>null\<close>, and a text that is not JSON. \<open>sampleToNumber\<close> is
  the conversion to a number on the one string the examples convert, \<open>"85"\<close>.\<close>

definition sampleParse :: "string \<Rightarrow> js_error + json" where
  \<open>sampleParse s =
     (if s = ''{"grade":85,"feedback":"Good"}'' then
        Inr (JObj [(''grade'', JNum (Num 85)), (''feedback'', JStr ''Good'')])
      else if s = ''{"grade":0,"marks":50}'' then
        Inr (JObj [(''grade'', JNum (Num 0)), (''marks'', JNum (Num 50))])
      else if s = ''{"grade":"85"}'' then
        Inr (JObj [(''grade'', JStr ''85'')])
      else if s = ''null'' then Inr JNull
      else Inl (JsError ''Unexpected token''))\<close>

definition sampleToNumber :: "json \<Rightarrow> js_error + js_number" where
  "sampleToNumber v = (if v = JStr ''85'' then Inr (Num 85) else Inr NaN)"

definition sampleRuntime :: js_runtime where
  "sampleRuntime =
     \<lparr> JSON_parse = sampleParse,
       JSON_stringify = (\<lambda>v. ''{}''),
       ToNumber = sampleToNumber \<rparr>"

text \<open>A runtime whose conversion to a number throws, as \<^verbatim>\<open>Number\<close> does on an object
  whose \<open>valueOf\<close> and \<open>toString\<close> are not callable.\<close>

definition throwingRuntime :: js_runtime where
  "throwingRuntime =
     sampleRuntime \<lparr> ToNumber := (\<lambda>v. Inl (JsError ''Cannot convert object to primitive value'')) \<rparr>"

text \<open>An OCR environment for the examples: a document of three pages, the second blank.\<close>

definition samplePages :: "nat \<Rightarrow> string" where
  "samplePages n =
     (if n = 1 then ''  Name: Ada '' else if n = 2 then ''   '' else ''Q1: 42'' @ [CHR 0x0A])"

definition sampleOcr :: ocr_env where
  "sampleOcr =
     \<lparr> openPdf = (\<lambda>f. Inr 3),
       recognizePage = (\<lambda>f n. Inr (samplePages n)),
       recognizeImage = (\<lambda>f. Inr ('' Name: Ada '', 91)),
       toFixed1 = (\<lambda>c. ''91.0'') \<rparr>"

definition blankOcr :: ocr_env where
  "blankOcr = sampleOcr \<lparr> recognizePage := (\<lambda>f n. Inr ''  '') \<rparr>"

text \<open>The same document when the recognition of its second page throws, and a document of
  one page whose recognition throws.\<close>

definition brokenPageOcr :: ocr_env where
  "brokenPageOcr =
     sampleOcr \<lparr> recognizePage :=
       (\<lambda>f n. if n = 2 then Inl (JsError ''boom'') else Inr (samplePages n)) \<rparr>"

definition unreadableOcr :: ocr_env where
  "unreadableOcr =
     sampleOcr \<lparr> openPdf := (\<lambda>f. Inr 1), recognizePage := (\<lambda>f n. Inl (JsError ''boom'')) \<rparr>"

definition samplePdf :: js_file where
  "samplePdf = \<lparr> file_name = ''homework.pdf'', file_type = ''application/pdf'', file_size = 2048 \<rparr>"

definition samplePng :: js_file where
  "samplePng = \<lparr> file_name = ''scan.png'', file_type = ''image/png'', file_size = 9 * 1024 * 1024 \<rparr>"

text \<open>A view with a meeting in progress, shown embedded.\<close>

definition sampleMeeting :: meeting where
  "sampleMeeting =
     \<lparr> meeting_id = ''m1'', code = ''abc-123'', title = ''Physics 101 - Live Class'', host_id = ''t1'' \<rparr>"

definition inProgress :: view_state where
  "inProgress =
     \<lparr> activeMeeting = Some sampleMeeting, isLoading = False, isStarting = False, showMeeting = True \<rparr>"

definition teacherProps :: meeting_props where
  "teacherProps = \<lparr> classId = ''c1'', isTeacher = True, hasOnClose = True \<rparr>"

text \<open>A backend that accepts the end of a meeting, and one whose request throws.\<close>

definition endAccepted :: "string \<Rightarrow> js_error option" where
  "endAccepted mid = None"

definition endRejected :: "string \<Rightarrow> js_error option" where
  "endRejected mid = Some (JsError ''Failed to fetch'')"


section \<open>Facts about the string functions\<close>

lemma startsWith_iff: "startsWith s p \<longleftrightarrow> (\<exists>t. s = p @ t)"
  by (induction s p rule: startsWith.induct) auto

lemma startsWith_append: "startsWith (p @ t) p"
  by (simp add: startsWith_iff)

lemma startsWith_longer: "startsWith s (p @ q) \<Longrightarrow> startsWith s p"
  by (auto simp: startsWith_iff)

lemma endsWith_append: "endsWith (t @ p) p"
  by (simp add: endsWith_def startsWith_iff)

lemma includes_js_iff: "includes_js s t \<longleftrightarrow> (\<exists>p q. s = p @ t @ q)"
proof (induction s)
  case Nil
  then show ?case by auto
next
  case (Cons c cs)
  show ?case
  proof
    assume "includes_js (c # cs) t"
    then consider "startsWith (c # cs) t" | "includes_js cs t" by auto
    then show "\<exists>p q. c # cs = p @ t @ q"
    proof cases
      case 1
      then obtain q where "c # cs = t @ q" by (auto simp: startsWith_iff)
      then have "c # cs = [] @ t @ q" by simp
      then show ?thesis by blast
    next
      case 2
      then obtain p q where "cs = p @ t @ q" using Cons.IH by auto
      then have "c # cs = (c # p) @ t @ q" by simp
      then show ?thesis by blast
    qed
  next
    assume "\<exists>p q. c # cs = p @ t @ q"
    then obtain p q where pq: "c # cs = p @ t @ q" by auto
    show "includes_js (c # cs) t"
    proof (cases p)
      case Nil
      with pq have "startsWith (c # cs) t" by (auto simp: startsWith_iff)
      then show ?thesis by simp
    next
      case (Cons a p')
      with pq have "cs = p' @ t @ q" by simp
      then have "includes_js cs t" using Cons.IH by auto
      then show ?thesis by simp
    qed
  qed
qed

lemma includes_js_middle: "includes_js (a @ m @ b) m"
  unfolding includes_js_iff by blast

text \<open>\<open>trim\<close> gives the empty string exactly on strings of white space.\<close>

lemma trim_eq_Nil_iff: "trim s = [] \<longleftrightarrow> (\<forall>c \<in> set s. isWhiteSpace c)"
proof
  assume "trim s = []"
  then have "dropWhile isWhiteSpace (rev (dropWhile isWhiteSpace s)) = []"
    by (simp add: trim_def)
  then have a: "\<forall>c \<in> set (dropWhile isWhiteSpace s). isWhiteSpace c"
    by (metis dropWhile_eq_Nil_conv set_rev)
  have "dropWhile isWhiteSpace s = []"
  proof (rule ccontr)
    assume n: "dropWhile isWhiteSpace s \<noteq> []"
    then have "\<not> isWhiteSpace (hd (dropWhile isWhiteSpace s))" by (rule hd_dropWhile)
    moreover from n have "hd (dropWhile isWhiteSpace s) \<in> set (dropWhile isWhiteSpace s)" by simp
    ultimately show False using a by blast
  qed
  then show "\<forall>c \<in> set s. isWhiteSpace c"
    by (simp only: dropWhile_eq_Nil_conv)
next
  assume "\<forall>c \<in> set s. isWhiteSpace c"
  then show "trim s = []" by (auto simp add: trim_def dest: set_dropWhileD)
qed

text \<open>A trimmed string does not begin with white space, so trimming twice changes nothing.\<close>

lemma trim_starts_clean: "dropWhile isWhiteSpace (trim s) = trim s"
proof (cases "trim s")
  case Nil
  then show ?thesis by simp
next
  case (Cons c cs)
  let ?y = "dropWhile isWhiteSpace s"
  let ?z = "dropWhile isWhiteSpace (rev ?y)"
  have t: "trim s = rev ?z" by (simp add: trim_def)
  with Cons have "rev ?z \<noteq> []" by (simp only: list.distinct not_False_eq_True)
  then have zne: "?z \<noteq> []" by (simp only: rev_is_Nil_conv not_False_eq_True)
  then have yne: "?y \<noteq> []" by (metis dropWhile.simps(1) rev.simps(1))
  obtain pre where pre: "rev ?y = pre @ ?z"
    by (metis takeWhile_dropWhile_id)
  have "hd (trim s) = last ?z" using zne by (simp add: t hd_rev)
  also have "\<dots> = last (rev ?y)" using zne pre by (metis last_appendR)
  also have "\<dots> = hd ?y" using yne by (simp add: last_rev)
  finally have "hd (trim s) = hd ?y" .
  moreover have "\<not> isWhiteSpace (hd ?y)" using yne by (rule hd_dropWhile)
  ultimately have "\<not> isWhiteSpace c" using Cons by simp
  then show ?thesis using Cons by simp
qed

lemma trim_idem: "trim (trim s) = trim s"
proof -
  let ?z = "dropWhile isWhiteSpace (rev (dropWhile isWhiteSpace s))"
  have "trim (trim s) = rev (dropWhile isWhiteSpace (rev (trim s)))"
    by (simp add: trim_def [of "trim s"] trim_starts_clean)
  also have "rev (trim s) = ?z" by (simp add: trim_def)
  also have "dropWhile isWhiteSpace ?z = ?z" by simp
  also have "rev ?z = trim s" by (simp add: trim_def)
  finally show ?thesis .
qed

text \<open>\<open>split_js\<close> cuts at every separator; the last segment of a name is what follows its
  last dot.\<close>

lemma split_js_not_Nil: "split_js sep s \<noteq> []"
  by (induction s) (auto split: list.splits)

lemma split_js_no_sep: "sep \<notin> set s \<Longrightarrow> split_js sep s = [s]"
  by (induction s) auto

lemma split_js_append:
  "split_js sep (base @ sep # ext) = split_js sep base @ split_js sep ext"
proof (induction base)
  case Nil
  then show ?case by simp
next
  case (Cons c cs)
  obtain seg segs where "split_js sep cs = seg # segs"
    using split_js_not_Nil [of sep cs] by (cases "split_js sep cs") auto
  with Cons show ?case by simp
qed

lemma pop_last: "xs \<noteq> [] \<Longrightarrow> pop xs = Some (last xs)"
  by (cases xs) auto

lemma pop_split_js_extension:
  assumes "sep \<notin> set ext"
  shows "pop (split_js sep (base @ sep # ext)) = Some ext"
  using assms
  by (simp add: pop_last split_js_not_Nil split_js_append split_js_no_sep)


section \<open>Claims about the fallback orchestrator\<close>

text \<open>
  C1. When both providers fail: if the message of Gemini's error is classified as
  quota, rate limit or model unavailable, the error that surfaces has a message that
  contains the message of Gemini's error and the message of Groq's error; if it is not
  so classified, the error that surfaces is Gemini's own error, whatever Groq's error was.
\<close>

theorem C1_both_providers_fail:
  assumes "gemini prompt = Inl geminiError" and "groq prompt = Inl groqError"
  shows "(isQuotaError (message geminiError) \<longrightarrow>
            (\<exists>e. fst (generateWithFallback gemini groq prompt) = Inl e
                 \<and> includes_js (message e) (message geminiError)
                 \<and> includes_js (message e) (message groqError)))
       \<and> (\<not> isQuotaError (message geminiError) \<longrightarrow>
            fst (generateWithFallback gemini groq prompt) = Inl geminiError)"
proof -
  have both: "includes_js (''Both AI providers failed. Gemini: '' @ message geminiError
                @ '', Groq: '' @ message groqError) (message geminiError)"
    by (rule includes_js_middle)
  have "includes_js ((''Both AI providers failed. Gemini: '' @ message geminiError
                @ '', Groq: '') @ message groqError @ []) (message groqError)"
    by (rule includes_js_middle)
  then have groq_in: "includes_js (''Both AI providers failed. Gemini: '' @ message geminiError
                @ '', Groq: '' @ message groqError) (message groqError)"
    by simp
  show ?thesis
    using assms both groq_in
    by (simp add: generateWithFallback_def callGemini_def callGroqAPI_def)
qed

theorem C1_both_providers_fail_witness:
  "isQuotaError ''429 Too Many Requests''
   \<and> (\<exists>e. fst (generateWithFallback (failingWith ''429 Too Many Requests'')
                 (failingWith ''Groq API error: 500 - down'') ''Hello'') = Inl e
          \<and> includes_js (message e) ''429 Too Many Requests''
          \<and> includes_js (message e) ''Groq API error: 500 - down'')
   \<and> \<not> isQuotaError ''API key invalid''
   \<and> fst (generateWithFallback (failingWith ''API key invalid'')
            (failingWith ''Groq API error: 500 - down'') ''Hello'')
       = Inl (JsError ''API key invalid'')"
proof -
  have q: "isQuotaError ''429 Too Many Requests''"
    by (simp add: isQuotaError_def)
  have nq: "\<not> isQuotaError ''API key invalid''"
    by (simp add: isQuotaError_def)
  have a: "failingWith ''429 Too Many Requests'' ''Hello'' = Inl (JsError ''429 Too Many Requests'')"
    and b: "failingWith ''API key invalid'' ''Hello'' = Inl (JsError ''API key invalid'')"
    and c: "failingWith ''Groq API error: 500 - down'' ''Hello'' = Inl (JsError ''Groq API error: 500 - down'')"
    by (simp_all add: failingWith_def)
  from q C1_both_providers_fail
         [of "failingWith ''429 Too Many Requests''" "''Hello''" "JsError ''429 Too Many Requests''"
             "failingWith ''Groq API error: 500 - down''" "JsError ''Groq API error: 500 - down''",
          OF a c]
  have 1: "\<exists>e. fst (generateWithFallback (failingWith ''429 Too Many Requests'')
                 (failingWith ''Groq API error: 500 - down'') ''Hello'') = Inl e
          \<and> includes_js (message e) ''429 Too Many Requests''
          \<and> includes_js (message e) ''Groq API error: 500 - down''"
    by simp
  from nq C1_both_providers_fail
         [of "failingWith ''API key invalid''" "''Hello''" "JsError ''API key invalid''"
             "failingWith ''Groq API error: 500 - down''" "JsError ''Groq API error: 500 - down''",
          OF b c]
  have 2: "fst (generateWithFallback (failingWith ''API key invalid'')
            (failingWith ''Groq API error: 500 - down'') ''Hello'')
       = Inl (JsError ''API key invalid'')"
    by simp
  from q nq 1 2 show ?thesis by blast
qed

text \<open>
  C2. When Gemini succeeds, the call returns exactly Gemini's text, and the only request
  made is the one to Gemini: Groq is not called.
\<close>

theorem C2_gemini_success:
  assumes "gemini prompt = Inr text"
  shows "fst (generateWithFallback gemini groq prompt) = Inr text
       \<and> snd (generateWithFallback gemini groq prompt) = [GeminiRequest prompt]
       \<and> groqRequests (snd (generateWithFallback gemini groq prompt)) = 0"
  using assms
  by (simp add: generateWithFallback_def callGemini_def groqRequests_def)

theorem C2_gemini_success_witness:
  "answering ''Dear class'' ''Hello'' = Inr ''Dear class''
   \<and> fst (generateWithFallback (answering ''Dear class'') (answering ''from Groq'') ''Hello'')
       = Inr ''Dear class''
   \<and> snd (generateWithFallback (answering ''Dear class'') (answering ''from Groq'') ''Hello'')
       = [GeminiRequest ''Hello'']
   \<and> groqRequests (snd (generateWithFallback (answering ''Dear class'') (answering ''from Groq'')
                          ''Hello'')) = 0"
proof -
  have h: "answering ''Dear class'' ''Hello'' = Inr ''Dear class''"
    by (simp add: answering_def)
  from h C2_gemini_success
         [of "answering ''Dear class''" "''Hello''" "''Dear class''" "answering ''from Groq''", OF h]
  show ?thesis by blast
qed

text \<open>
  C3. No call makes more than one request to either provider. When Gemini fails, whatever
  its error message, the requests of the call are one to Gemini followed by one to Groq,
  and if Groq succeeds its text is returned.
\<close>

theorem C3_fallback_once:
  "(geminiRequests (snd (generateWithFallback gemini groq prompt)) \<le> 1
      \<and> groqRequests (snd (generateWithFallback gemini groq prompt)) \<le> 1)
   \<and> (\<forall>geminiError. gemini prompt = Inl geminiError \<longrightarrow>
         snd (generateWithFallback gemini groq prompt) = [GeminiRequest prompt, GroqRequest prompt]
       \<and> geminiRequests (snd (generateWithFallback gemini groq prompt)) = 1
       \<and> groqRequests (snd (generateWithFallback gemini groq prompt)) = 1
       \<and> (\<forall>text. groq prompt = Inr text \<longrightarrow>
             fst (generateWithFallback gemini groq prompt) = Inr text))"
  by (cases "gemini prompt"; cases "groq prompt")
     (simp_all add: generateWithFallback_def callGemini_def callGroqAPI_def
        geminiRequests_def groqRequests_def)

theorem C3_fallback_once_witness:
  "\<not> isQuotaError ''API key invalid''
   \<and> snd (generateWithFallback (failingWith ''API key invalid'') (answering ''from Groq'') ''Hello'')
       = [GeminiRequest ''Hello'', GroqRequest ''Hello'']
   \<and> fst (generateWithFallback (failingWith ''API key invalid'') (answering ''from Groq'') ''Hello'')
       = Inr ''from Groq''
   \<and> isQuotaError ''quota exceeded''
   \<and> snd (generateWithFallback (failingWith ''quota exceeded'') (answering ''from Groq'') ''Hello'')
       = [GeminiRequest ''Hello'', GroqRequest ''Hello'']
   \<and> fst (generateWithFallback (failingWith ''quota exceeded'') (answering ''from Groq'') ''Hello'')
       = Inr ''from Groq''"
proof -
  have a: "failingWith ''API key invalid'' ''Hello'' = Inl (JsError ''API key invalid'')"
    and b: "failingWith ''quota exceeded'' ''Hello'' = Inl (JsError ''quota exceeded'')"
    and c: "answering ''from Groq'' ''Hello'' = Inr ''from Groq''"
    by (simp_all add: failingWith_def answering_def)
  have q: "isQuotaError ''quota exceeded''" and nq: "\<not> isQuotaError ''API key invalid''"
    by (simp_all add: isQuotaError_def)
  from a c C3_fallback_once [of "failingWith ''API key invalid''" "answering ''from Groq''" "''Hello''"]
  have 1: "snd (generateWithFallback (failingWith ''API key invalid'') (answering ''from Groq'') ''Hello'')
       = [GeminiRequest ''Hello'', GroqRequest ''Hello'']
     \<and> fst (generateWithFallback (failingWith ''API key invalid'') (answering ''from Groq'') ''Hello'')
       = Inr ''from Groq''"
    by blast
  from b c C3_fallback_once [of "failingWith ''quota exceeded''" "answering ''from Groq''" "''Hello''"]
  have 2: "snd (generateWithFallback (failingWith ''quota exceeded'') (answering ''from Groq'') ''Hello'')
       = [GeminiRequest ''Hello'', GroqRequest ''Hello'']
     \<and> fst (generateWithFallback (failingWith ''quota exceeded'') (answering ''from Groq'') ''Hello'')
       = Inr ''from Groq''"
    by blast
  from q nq 1 2 show ?thesis by blast
qed


section \<open>Claims about submission grading\<close>


text \<open>A body that is followed by a closing fence begins with \<open>json\<close> only if the body
  itself does.\<close>

lemma startsWith_json_before_fence:
  assumes "startsWith (b @ ''```'') ''json''"
  shows "startsWith b ''json''"
proof -
  from assms obtain t where t: "b @ ''```'' = ''json'' @ t"
    by (auto simp: startsWith_iff)
  have "length b \<ge> 4"
  proof (rule ccontr)
    assume "\<not> length b \<ge> 4"
    then have l: "length b < 4" by simp
    have "(b @ ''```'') ! length b = CHR 0x60" by (simp add: nth_append)
    moreover have "(''json'' @ t) ! length b \<in> set ''json''"
      using l by (simp add: nth_append less_Suc_eq numeral_eq_Suc) (auto)
    ultimately show False using t by auto
  qed
  then have "take 4 (b @ ''```'') = take 4 b" by simp
  moreover have "take 4 (b @ ''```'') = ''json''" by (simp add: t)
  ultimately have "take 4 b = ''json''" by simp
  then have "b = ''json'' @ drop 4 b" by (metis append_take_drop_id)
  then show ?thesis by (auto simp: startsWith_iff)
qed

text \<open>The three ways the response can begin.\<close>

lemma cleanedResult_json_opening:
  assumes "trim raw = ''```json'' @ c"
  shows "cleanedResult raw = trim (if endsWith c ''```'' then take (length c - 3) c else c)"
proof -
  have s: "startsWith (trim raw) ''```json''"
    unfolding assms by (rule startsWith_append)
  have d: "drop 7 (trim raw) = c" by (simp add: assms)
  show ?thesis
    unfolding cleanedResult_def Let_def using s by (simp add: d)
qed

lemma cleanedResult_plain_opening:
  assumes "trim raw = ''```'' @ c" and "\<not> startsWith c ''json''"
  shows "cleanedResult raw = trim (if endsWith c ''```'' then take (length c - 3) c else c)"
proof -
  have s: "startsWith (trim raw) ''```''"
    unfolding assms by (rule startsWith_append)
  have n: "\<not> startsWith (trim raw) ''```json''"
    using assms(2) by (simp add: assms(1))
  have d: "drop 3 (trim raw) = c" by (simp add: assms)
  show ?thesis
    unfolding cleanedResult_def Let_def using s n by (simp add: d)
qed

lemma cleanedResult_no_opening:
  assumes "\<not> startsWith (trim raw) ''```''"
  shows "cleanedResult raw =
           trim (if endsWith (trim raw) ''```'' then take (length (trim raw) - 3) (trim raw)
                 else trim raw)"
proof -
  have "\<not> startsWith (trim raw) (''```'' @ ''json'')"
    using assms(1) startsWith_longer by blast
  then have n: "\<not> startsWith (trim raw) ''```json''" by simp
  show ?thesis
    unfolding cleanedResult_def Let_def using assms n by simp
qed

lemma cleanedResult_fences:
  "(\<forall>b. trim raw = ''```json'' @ b @ ''```'' \<longrightarrow> cleanedResult raw = trim b)
   \<and> (\<forall>b. trim raw = ''```json'' @ b \<and> \<not> endsWith b ''```'' \<longrightarrow> cleanedResult raw = trim b)
   \<and> (\<forall>b. trim raw = ''```'' @ b @ ''```'' \<and> \<not> startsWith b ''json'' \<longrightarrow> cleanedResult raw = trim b)
   \<and> (\<forall>b. trim raw = ''```'' @ b \<and> \<not> startsWith b ''json'' \<and> \<not> endsWith b ''```'' \<longrightarrow>
         cleanedResult raw = trim b)
   \<and> (\<forall>b. trim raw = b @ ''```'' \<and> \<not> startsWith (trim raw) ''```'' \<longrightarrow> cleanedResult raw = trim b)
   \<and> (\<not> startsWith (trim raw) ''```'' \<and> \<not> endsWith (trim raw) ''```'' \<longrightarrow> cleanedResult raw = trim raw)"
proof (intro conjI allI impI)
  fix b assume "trim raw = ''```json'' @ b @ ''```''"
  then show "cleanedResult raw = trim b"
    using cleanedResult_json_opening [of raw "b @ ''```''"] by (simp add: endsWith_append)
next
  fix b assume "trim raw = ''```json'' @ b \<and> \<not> endsWith b ''```''"
  then show "cleanedResult raw = trim b"
    using cleanedResult_json_opening [of raw b] by simp
next
  fix b assume a: "trim raw = ''```'' @ b @ ''```'' \<and> \<not> startsWith b ''json''"
  then have "\<not> startsWith (b @ ''```'') ''json''"
    using startsWith_json_before_fence [of b] by blast
  with a show "cleanedResult raw = trim b"
    using cleanedResult_plain_opening [of raw "b @ ''```''"] by (simp add: endsWith_append)
next
  fix b assume "trim raw = ''```'' @ b \<and> \<not> startsWith b ''json'' \<and> \<not> endsWith b ''```''"
  then show "cleanedResult raw = trim b"
    using cleanedResult_plain_opening [of raw b] by simp
next
  fix b assume a: "trim raw = b @ ''```'' \<and> \<not> startsWith (trim raw) ''```''"
  then have "cleanedResult raw =
      trim (if endsWith (b @ ''```'') ''```'' then take (length (b @ ''```'') - 3) (b @ ''```'')
            else b @ ''```'')"
    using cleanedResult_no_opening [of raw] by metis
  then show "cleanedResult raw = trim b"
    by (simp add: endsWith_append)
next
  assume "\<not> startsWith (trim raw) ''```'' \<and> \<not> endsWith (trim raw) ''```''"
  then show "cleanedResult raw = trim raw"
    using cleanedResult_no_opening [of raw] by (simp add: trim_idem)
qed

text \<open>The chains of \<^verbatim>\<open>||\<close> select the first truthy value.\<close>

lemma chain4_firstTruthy:
  "orDefault (js_or (js_or (js_or (field a) (field b)) (field c)) (field e)) d
     = firstTruthy field [a, b, c, e] d"
  by (simp add: orDefault_def js_or_def firstTruthy_def List.map_filter_def split: option.splits)

lemma chain3_firstTruthy:
  "orDefault (js_or (js_or (field a) (field b)) (field c)) d = firstTruthy field [a, b, c] d"
  by (simp add: orDefault_def js_or_def firstTruthy_def List.map_filter_def split: option.splits)

text \<open>Reading properties throws on \<^verbatim>\<open>null\<close> only; on every other value it gives the fields.\<close>

lemma props_fieldsOf: "v \<noteq> JNull \<Longrightarrow> props v = Inr (fieldsOf v)"
  by (cases v) (auto simp: fieldsOf_def fun_eq_iff)

lemma parseGrading_parsed:
  assumes "JSON_parse rt (cleanedResult raw) = Inr v" and "v \<noteq> JNull"
  shows "parseGrading rt raw =
     (case Number rt (firstTruthy (fieldsOf v) [''grade'', ''marks'', ''final_marks'', ''score'']
                        (JNum (Num 0))) of
        Inl e \<Rightarrow> textFormat raw
      | Inr g \<Rightarrow>
          \<lparr> success = True,
            grade = g,
            feedback = firstTruthy (fieldsOf v) [''feedback'', ''review'', ''comments'']
                         (JStr ''No feedback provided''),
            strengths = Some (orDefault (fieldsOf v ''strengths'') (JStr [])),
            improvements = Some (orDefault (js_or (fieldsOf v ''improvements'')
                                                  (fieldsOf v ''areas_for_improvement'')) (JStr [])),
            final_marks = g,
            review = firstTruthy (fieldsOf v) [''feedback'', ''review'', ''comments'']
                       (JStr ''No feedback provided''),
            grading_message = ''Submission graded successfully'' \<rparr>)"
  using assms
  by (simp add: parseGrading_def Let_def props_fieldsOf chain4_firstTruthy chain3_firstTruthy
      split: sum.splits)

text \<open>
  C4, as the code has it. The response is trimmed, a leading \<open>```json\<close> or \<open>```\<close> and a
  trailing \<open>```\<close> are removed, each if it is there, and the rest is trimmed and parsed.
  When the parse succeeds with a value other than \<^verbatim>\<open>null\<close>, the grade is \<^verbatim>\<open>Number\<close> of the
  first of \<open>grade\<close>, \<open>marks\<close>, \<open>final_marks\<close>, \<open>score\<close> whose value is truthy (so a field
  that is present with the value 0 is passed over), and of 0 when none is: a number is
  returned as it is, \<^verbatim>\<open>true\<close> as 1, and a string, an array or an object as the runtime
  converts it. The feedback is the first truthy of \<open>feedback\<close>, \<open>review\<close>, \<open>comments\<close>, and
  \<open>No feedback provided\<close> when none is. When the parse fails, and also when it gives
  \<^verbatim>\<open>null\<close> or the conversion to a number throws, the call still succeeds, with grade 0
  and the raw response as feedback.
\<close>

theorem C4_grading_first_truthy:
  \<open>((\<forall>b. trim raw = ''```json'' @ b @ ''```'' \<longrightarrow> cleanedResult raw = trim b)
   \<and> (\<forall>b. trim raw = ''```json'' @ b \<and> \<not> endsWith b ''```'' \<longrightarrow> cleanedResult raw = trim b)
   \<and> (\<forall>b. trim raw = ''```'' @ b @ ''```'' \<and> \<not> startsWith b ''json'' \<longrightarrow> cleanedResult raw = trim b)
   \<and> (\<forall>b. trim raw = ''```'' @ b \<and> \<not> startsWith b ''json'' \<and> \<not> endsWith b ''```'' \<longrightarrow>
         cleanedResult raw = trim b)
   \<and> (\<forall>b. trim raw = b @ ''```'' \<and> \<not> startsWith (trim raw) ''```'' \<longrightarrow> cleanedResult raw = trim b)
   \<and> (\<not> startsWith (trim raw) ''```'' \<and> \<not> endsWith (trim raw) ''```'' \<longrightarrow> cleanedResult raw = trim raw))
   \<and> (\<forall>v. JSON_parse rt (cleanedResult raw) = Inr v \<and> v \<noteq> JNull \<longrightarrow>
         (\<forall>g. Number rt (firstTruthy (fieldsOf v) [''grade'', ''marks'', ''final_marks'', ''score'']
                           (JNum (Num 0))) = Inr g \<longrightarrow>
              grade (parseGrading rt raw) = g
            \<and> feedback (parseGrading rt raw) =
                firstTruthy (fieldsOf v) [''feedback'', ''review'', ''comments'']
                  (JStr ''No feedback provided''))
       \<and> (\<forall>e. Number rt (firstTruthy (fieldsOf v) [''grade'', ''marks'', ''final_marks'', ''score'']
                           (JNum (Num 0))) = Inl e \<longrightarrow>
              grade (parseGrading rt raw) = Num 0 \<and> feedback (parseGrading rt raw) = JStr raw))
   \<and> ((\<forall>n. Number rt (JNum n) = Inr n)
       \<and> Number rt (JBool True) = Inr (Num 1)
       \<and> (\<forall>s. Number rt (JStr s) = ToNumber rt (JStr s))
       \<and> (\<forall>xs. Number rt (JArr xs) = ToNumber rt (JArr xs))
       \<and> (\<forall>kvs. Number rt (JObj kvs) = ToNumber rt (JObj kvs)))
   \<and> (JSON_parse rt (cleanedResult raw) = Inr JNull \<longrightarrow>
         grade (parseGrading rt raw) = Num 0 \<and> feedback (parseGrading rt raw) = JStr raw)
   \<and> (\<forall>e. JSON_parse rt (cleanedResult raw) = Inl e \<longrightarrow>
         grade (parseGrading rt raw) = Num 0 \<and> feedback (parseGrading rt raw) = JStr raw)
   \<and> (fst (generateWithFallback gemini groq
              (gradingPrompt rt ocrText generatedContent gradingCriteria customInstructions)) = Inr raw
       \<longrightarrow> fst (gradeSubmission rt gemini groq gradingMode ocrText generatedContent gradingCriteria
                  customInstructions) = Inr (parseGrading rt raw))\<close>
proof -
  have parsed: "(\<forall>g. Number rt (firstTruthy (fieldsOf v) [''grade'', ''marks'', ''final_marks'', ''score'']
                           (JNum (Num 0))) = Inr g \<longrightarrow>
              grade (parseGrading rt raw) = g
            \<and> feedback (parseGrading rt raw) =
                firstTruthy (fieldsOf v) [''feedback'', ''review'', ''comments'']
                  (JStr ''No feedback provided''))
       \<and> (\<forall>e. Number rt (firstTruthy (fieldsOf v) [''grade'', ''marks'', ''final_marks'', ''score'']
                           (JNum (Num 0))) = Inl e \<longrightarrow>
              grade (parseGrading rt raw) = Num 0 \<and> feedback (parseGrading rt raw) = JStr raw)"
    if "JSON_parse rt (cleanedResult raw) = Inr v \<and> v \<noteq> JNull" for v
    using that by (simp add: parseGrading_parsed textFormat_def)
  have numbers: "(\<forall>n. Number rt (JNum n) = Inr n)
       \<and> Number rt (JBool True) = Inr (Num 1)
       \<and> (\<forall>s. Number rt (JStr s) = ToNumber rt (JStr s))
       \<and> (\<forall>xs. Number rt (JArr xs) = ToNumber rt (JArr xs))
       \<and> (\<forall>kvs. Number rt (JObj kvs) = ToNumber rt (JObj kvs))"
    by (simp add: Number_def)
  have null: "grade (parseGrading rt raw) = Num 0 \<and> feedback (parseGrading rt raw) = JStr raw"
    if "JSON_parse rt (cleanedResult raw) = Inr JNull"
    using that by (simp add: parseGrading_def textFormat_def)
  have failed: "grade (parseGrading rt raw) = Num 0 \<and> feedback (parseGrading rt raw) = JStr raw"
    if "JSON_parse rt (cleanedResult raw) = Inl e" for e
    using that by (simp add: parseGrading_def textFormat_def)
  have call: "fst (gradeSubmission rt gemini groq gradingMode ocrText generatedContent gradingCriteria
                  customInstructions) = Inr (parseGrading rt raw)"
    if "fst (generateWithFallback gemini groq
              (gradingPrompt rt ocrText generatedContent gradingCriteria customInstructions)) = Inr raw"
  proof -
    obtain r evs where g: "generateWithFallback gemini groq
              (gradingPrompt rt ocrText generatedContent gradingCriteria customInstructions) = (r, evs)"
      by (cases "generateWithFallback gemini groq
              (gradingPrompt rt ocrText generatedContent gradingCriteria customInstructions)")
    with that have "r = Inr raw" by simp
    with g show ?thesis by (simp add: gradeSubmission_def)
  qed
  from parsed have parsed': "\<forall>v. JSON_parse rt (cleanedResult raw) = Inr v \<and> v \<noteq> JNull \<longrightarrow>
         (\<forall>g. Number rt (firstTruthy (fieldsOf v) [''grade'', ''marks'', ''final_marks'', ''score'']
                           (JNum (Num 0))) = Inr g \<longrightarrow>
              grade (parseGrading rt raw) = g
            \<and> feedback (parseGrading rt raw) =
                firstTruthy (fieldsOf v) [''feedback'', ''review'', ''comments'']
                  (JStr ''No feedback provided''))
       \<and> (\<forall>e. Number rt (firstTruthy (fieldsOf v) [''grade'', ''marks'', ''final_marks'', ''score'']
                           (JNum (Num 0))) = Inl e \<longrightarrow>
              grade (parseGrading rt raw) = Num 0 \<and> feedback (parseGrading rt raw) = JStr raw)"
    by blast
  from failed have failed': "\<forall>e. JSON_parse rt (cleanedResult raw) = Inl e \<longrightarrow>
         grade (parseGrading rt raw) = Num 0 \<and> feedback (parseGrading rt raw) = JStr raw"
    by blast
  from null have null': "JSON_parse rt (cleanedResult raw) = Inr JNull \<longrightarrow>
         grade (parseGrading rt raw) = Num 0 \<and> feedback (parseGrading rt raw) = JStr raw"
    by blast
  from call have call': "fst (generateWithFallback gemini groq
              (gradingPrompt rt ocrText generatedContent gradingCriteria customInstructions)) = Inr raw
       \<longrightarrow> fst (gradeSubmission rt gemini groq gradingMode ocrText generatedContent gradingCriteria
                  customInstructions) = Inr (parseGrading rt raw)"
    by blast
  have fences: "(\<forall>b. trim raw = ''```json'' @ b @ ''```'' \<longrightarrow> cleanedResult raw = trim b)
   \<and> (\<forall>b. trim raw = ''```json'' @ b \<and> \<not> endsWith b ''```'' \<longrightarrow> cleanedResult raw = trim b)
   \<and> (\<forall>b. trim raw = ''```'' @ b @ ''```'' \<and> \<not> startsWith b ''json'' \<longrightarrow> cleanedResult raw = trim b)
   \<and> (\<forall>b. trim raw = ''```'' @ b \<and> \<not> startsWith b ''json'' \<and> \<not> endsWith b ''```'' \<longrightarrow>
         cleanedResult raw = trim b)
   \<and> (\<forall>b. trim raw = b @ ''```'' \<and> \<not> startsWith (trim raw) ''```'' \<longrightarrow> cleanedResult raw = trim b)
   \<and> (\<not> startsWith (trim raw) ''```'' \<and> \<not> endsWith (trim raw) ''```'' \<longrightarrow> cleanedResult raw = trim raw)"
    by (rule cleanedResult_fences)
  show ?thesis
    by (rule conjI [OF fences conjI [OF parsed' conjI [OF numbers conjI [OF null' conjI [OF failed' call']]]]])
qed

theorem C4_grading_first_truthy_witness:
  \<open>cleanedResult (''  ```json'' @ [CHR 0x0A] @ ''{"grade":85,"feedback":"Good"}'' @ [CHR 0x0A] @ ''```'' @ [CHR 0x0A])
     = ''{"grade":85,"feedback":"Good"}''
   \<and> cleanedResult (''```json'' @ [CHR 0x0A] @ ''{"grade":85,"feedback":"Good"}'')
     = ''{"grade":85,"feedback":"Good"}''
   \<and> cleanedResult (''```'' @ [CHR 0x0A] @ ''{"grade":85,"feedback":"Good"}'' @ [CHR 0x0A] @ ''```'')
     = ''{"grade":85,"feedback":"Good"}''
   \<and> cleanedResult (''```'' @ [CHR 0x0A] @ ''{"grade":85,"feedback":"Good"}'')
     = ''{"grade":85,"feedback":"Good"}''
   \<and> cleanedResult (''{"grade":85,"feedback":"Good"}'' @ [CHR 0x0A] @ ''```'')
     = ''{"grade":85,"feedback":"Good"}''
   \<and> cleanedResult ''Great job, 90/100'' = ''Great job, 90/100''
   \<and> grade (parseGrading sampleRuntime
        (''  ```json'' @ [CHR 0x0A] @ ''{"grade":85,"feedback":"Good"}'' @ [CHR 0x0A] @ ''```'' @ [CHR 0x0A]))
       = Num 85
   \<and> feedback (parseGrading sampleRuntime
        (''  ```json'' @ [CHR 0x0A] @ ''{"grade":85,"feedback":"Good"}'' @ [CHR 0x0A] @ ''```'' @ [CHR 0x0A]))
       = JStr ''Good''
   \<and> grade (parseGrading sampleRuntime ''{"grade":"85"}'') = Num 85
   \<and> feedback (parseGrading sampleRuntime ''{"grade":"85"}'') = JStr ''No feedback provided''
   \<and> grade (parseGrading throwingRuntime ''{"grade":"85"}'') = Num 0
   \<and> feedback (parseGrading throwingRuntime ''{"grade":"85"}'') = JStr ''{"grade":"85"}''
   \<and> grade (parseGrading sampleRuntime ''null'') = Num 0
   \<and> feedback (parseGrading sampleRuntime ''null'') = JStr ''null''
   \<and> grade (parseGrading sampleRuntime ''Great job, 90/100'') = Num 0
   \<and> feedback (parseGrading sampleRuntime ''Great job, 90/100'') = JStr ''Great job, 90/100''
   \<and> fst (gradeSubmission sampleRuntime (answering ''Great job, 90/100'') (failingWith ''down'')
            ''auto'' (Some ''2 + 2 = 4'') JNull None None)
       = Inr (parseGrading sampleRuntime ''Great job, 90/100'')\<close>
proof -
  let ?obj = \<open>''{"grade":85,"feedback":"Good"}''\<close>
  let ?b = "[CHR 0x0A] @ ?obj @ [CHR 0x0A]"
  let ?b' = "[CHR 0x0A] @ ?obj"
  let ?b'' = "?obj @ [CHR 0x0A]"
  let ?raw1 = "''  ```json'' @ [CHR 0x0A] @ ?obj @ [CHR 0x0A] @ ''```'' @ [CHR 0x0A]"
  let ?raw2 = "''```json'' @ [CHR 0x0A] @ ?obj"
  let ?raw3 = "''```'' @ [CHR 0x0A] @ ?obj @ [CHR 0x0A] @ ''```''"
  let ?raw4 = "''```'' @ [CHR 0x0A] @ ?obj"
  let ?raw5 = "?obj @ [CHR 0x0A] @ ''```''"
  let ?raw6 = "''Great job, 90/100''"
  let ?raw7 = \<open>''{"grade":"85"}''\<close>
  let ?raw8 = "''null''"
  let ?v1 = "JObj [(''grade'', JNum (Num 85)), (''feedback'', JStr ''Good'')]"
  let ?v7 = "JObj [(''grade'', JStr ''85'')]"
  let ?grades = "[''grade'', ''marks'', ''final_marks'', ''score'']"
  let ?feedbacks = "[''feedback'', ''review'', ''comments'']"
  have t1: "trim ?raw1 = ''```json'' @ ?b @ ''```''"
    and t2: "trim ?raw2 = ''```json'' @ ?b'"
    and t3: "trim ?raw3 = ''```'' @ ?b @ ''```''"
    and t4: "trim ?raw4 = ''```'' @ ?b'"
    and t5: "trim ?raw5 = ?b'' @ ''```''"
    and t6: "trim ?raw6 = ?raw6" and t7: "trim ?raw7 = ?raw7" and t8: "trim ?raw8 = ?raw8"
    and tb: "trim ?b = ?obj" and tb': "trim ?b' = ?obj" and tb'': "trim ?b'' = ?obj"
    by (simp_all add: trim_def isWhiteSpace_def)
  have nj: "\<not> startsWith ?b ''json''" and nj': "\<not> startsWith ?b' ''json''"
    and ne': "\<not> endsWith ?b' ''```''"
    and n5: "\<not> startsWith (trim ?raw5) ''```''"
    and n6: "\<not> startsWith (trim ?raw6) ''```'' \<and> \<not> endsWith (trim ?raw6) ''```''"
    and n7: "\<not> startsWith (trim ?raw7) ''```'' \<and> \<not> endsWith (trim ?raw7) ''```''"
    and n8: "\<not> startsWith (trim ?raw8) ''```'' \<and> \<not> endsWith (trim ?raw8) ''```''"
    by (simp_all add: trim_def isWhiteSpace_def endsWith_def)
  note thm1 = C4_grading_first_truthy [of ?raw1 sampleRuntime]
  note thm2 = C4_grading_first_truthy [of ?raw2]
  note thm3 = C4_grading_first_truthy [of ?raw3]
  note thm4 = C4_grading_first_truthy [of ?raw4]
  note thm5 = C4_grading_first_truthy [of ?raw5]
  note thm6 = C4_grading_first_truthy [of ?raw6 sampleRuntime "answering ''Great job, 90/100''"
      "failingWith ''down''" "Some ''2 + 2 = 4''" JNull None None "''auto''"]
  note thm7 = C4_grading_first_truthy [of ?raw7 sampleRuntime]
  note thm7t = C4_grading_first_truthy [of ?raw7 throwingRuntime]
  note thm8 = C4_grading_first_truthy [of ?raw8 sampleRuntime]
  have c1: "cleanedResult ?raw1 = ?obj"
    using conjunct1 [OF thm1] t1 tb by metis
  have c2: "cleanedResult ?raw2 = ?obj"
    using conjunct1 [OF thm2] t2 ne' tb' by metis
  have c3: "cleanedResult ?raw3 = ?obj"
    using conjunct1 [OF thm3] t3 nj tb by metis
  have c4: "cleanedResult ?raw4 = ?obj"
    using conjunct1 [OF thm4] t4 nj' ne' tb' by metis
  have c5: "cleanedResult ?raw5 = ?obj"
    using conjunct1 [OF thm5] t5 n5 tb'' by metis
  have c6: "cleanedResult ?raw6 = ?raw6"
    using conjunct1 [OF thm6] n6 t6 by metis
  have c7: "cleanedResult ?raw7 = ?raw7"
    using conjunct1 [OF thm7] n7 t7 by metis
  have c8: "cleanedResult ?raw8 = ?raw8"
    using conjunct1 [OF thm8] n8 t8 by metis
  have p1: "JSON_parse sampleRuntime (cleanedResult ?raw1) = Inr ?v1 \<and> ?v1 \<noteq> JNull"
    and p7: "JSON_parse sampleRuntime (cleanedResult ?raw7) = Inr ?v7 \<and> ?v7 \<noteq> JNull"
    and p7t: "JSON_parse throwingRuntime (cleanedResult ?raw7) = Inr ?v7 \<and> ?v7 \<noteq> JNull"
    and p8: "JSON_parse sampleRuntime (cleanedResult ?raw8) = Inr JNull"
    and p6: "JSON_parse sampleRuntime (cleanedResult ?raw6) = Inl (JsError ''Unexpected token'')"
    unfolding c1 c6 c7 c8
    by (simp_all add: sampleRuntime_def throwingRuntime_def sampleParse_def)
  have g1: "firstTruthy (fieldsOf ?v1) ?grades (JNum (Num 0)) = JNum (Num 85)"
    and f1: "firstTruthy (fieldsOf ?v1) ?feedbacks (JStr ''No feedback provided'') = JStr ''Good''"
    and g7: "firstTruthy (fieldsOf ?v7) ?grades (JNum (Num 0)) = JStr ''85''"
    and f7: "firstTruthy (fieldsOf ?v7) ?feedbacks (JStr ''No feedback provided'')
               = JStr ''No feedback provided''"
    by (simp_all add: firstTruthy_def fieldsOf_def List.map_filter_def)
  have n1: "Number sampleRuntime (JNum (Num 85)) = Inr (Num 85)"
    using conjunct1 [OF conjunct2 [OF conjunct2 [OF thm1]]] by blast
  have "Number sampleRuntime (JStr ''85'') = ToNumber sampleRuntime (JStr ''85'')"
    using conjunct1 [OF conjunct2 [OF conjunct2 [OF thm7]]] by blast
  then have n7: "Number sampleRuntime (JStr ''85'') = Inr (Num 85)"
    by (simp add: sampleRuntime_def sampleToNumber_def)
  have "Number throwingRuntime (JStr ''85'') = ToNumber throwingRuntime (JStr ''85'')"
    using conjunct1 [OF conjunct2 [OF conjunct2 [OF thm7t]]] by blast
  then have n7t: "Number throwingRuntime (JStr ''85'')
      = Inl (JsError ''Cannot convert object to primitive value'')"
    by (simp add: throwingRuntime_def)
  note parsed1 = conjunct1 [OF conjunct2 [OF thm1], rule_format, OF p1]
  note parsed7 = conjunct1 [OF conjunct2 [OF thm7], rule_format, OF p7]
  note parsed7t = conjunct1 [OF conjunct2 [OF thm7t], rule_format, OF p7t]
  have r1: "grade (parseGrading sampleRuntime ?raw1) = Num 85
      \<and> feedback (parseGrading sampleRuntime ?raw1) = JStr ''Good''"
    using conjunct1 [OF parsed1, rule_format, of "Num 85"] n1 by (simp add: g1 f1)
  have r7: "grade (parseGrading sampleRuntime ?raw7) = Num 85
      \<and> feedback (parseGrading sampleRuntime ?raw7) = JStr ''No feedback provided''"
    using conjunct1 [OF parsed7, rule_format, of "Num 85"] n7 by (simp add: g7 f7)
  have r7t: "grade (parseGrading throwingRuntime ?raw7) = Num 0
      \<and> feedback (parseGrading throwingRuntime ?raw7) = JStr ?raw7"
    using conjunct2 [OF parsed7t, rule_format, of "JsError ''Cannot convert object to primitive value''"]
      n7t by (simp add: g7)
  have r8: "grade (parseGrading sampleRuntime ?raw8) = Num 0
      \<and> feedback (parseGrading sampleRuntime ?raw8) = JStr ?raw8"
    using conjunct1 [OF conjunct2 [OF conjunct2 [OF conjunct2 [OF thm8]]]] p8 by blast
  have r6: "grade (parseGrading sampleRuntime ?raw6) = Num 0
      \<and> feedback (parseGrading sampleRuntime ?raw6) = JStr ?raw6"
    using conjunct1 [OF conjunct2 [OF conjunct2 [OF conjunct2 [OF conjunct2 [OF thm6]]]]] p6 by blast
  have gen: "fst (generateWithFallback (answering ''Great job, 90/100'') (failingWith ''down'')
               (gradingPrompt sampleRuntime (Some ''2 + 2 = 4'') JNull None None)) = Inr ?raw6"
    by (simp add: generateWithFallback_def callGemini_def answering_def)
  have r9: "fst (gradeSubmission sampleRuntime (answering ''Great job, 90/100'')
            (failingWith ''down'') ''auto'' (Some ''2 + 2 = 4'') JNull None None)
       = Inr (parseGrading sampleRuntime ?raw6)"
    using conjunct2 [OF conjunct2 [OF conjunct2 [OF conjunct2 [OF conjunct2 [OF thm6]]]]] gen
    by blast
  from c1 c2 c3 c4 c5 c6 r1 r7 r7t r8 r6 r9 show ?thesis by simp
qed

text \<open>
  The claim as it is stated fails on the object \<open>{"grade":0,"marks":50}\<close>: the first
  present field is \<open>grade\<close>, with the value 0, and the code returns the grade 50.
\<close>

theorem C4_first_present_counterexample:
  \<open>JSON_parse sampleRuntime
      (cleanedResult (''```json'' @ [CHR 0x0A] @ ''{"grade":0,"marks":50}'' @ [CHR 0x0A] @ ''```''))
     = Inr (JObj [(''grade'', JNum (Num 0)), (''marks'', JNum (Num 50))])
   \<and> firstPresent (map_of [(''grade'', JNum (Num 0)), (''marks'', JNum (Num 50))])
        [''grade'', ''marks'', ''final_marks'', ''score''] (JNum (Num 0)) = JNum (Num 0)
   \<and> grade (parseGrading sampleRuntime
        (''```json'' @ [CHR 0x0A] @ ''{"grade":0,"marks":50}'' @ [CHR 0x0A] @ ''```'')) = Num 50
   \<and> Num 50 \<noteq> Num 0\<close>
  by (simp add: parseGrading_def cleanedResult_def trim_def isWhiteSpace_def endsWith_def Let_def
      sampleRuntime_def sampleParse_def orDefault_def js_or_def Number_def firstPresent_def
      List.map_filter_def)


section \<open>Claims about the OCR router\<close>


text \<open>
  C5. A file whose declared type is neither one of the five image types nor
  \<open>application/pdf\<close> is refused with the unsupported-type error and no OCR step is taken;
  a PDF goes to the PDF path and an image to the image path.
\<close>

theorem C5_extractText_dispatch:
  "(file_type f \<notin> {''image/jpeg'', ''image/jpg'', ''image/png'', ''image/gif'', ''image/webp''}
      \<and> file_type f \<noteq> ''application/pdf'' \<longrightarrow>
        extractText env f =
          (Inl (JsError (''Unsupported file type: '' @ file_type f
                  @ ''. Please use JPEG, PNG, GIF, WebP images or PDF documents.'')), []))
   \<and> (file_type f = ''application/pdf'' \<longrightarrow> extractText env f = extractTextFromPDF env f)
   \<and> (file_type f \<in> {''image/jpeg'', ''image/jpg'', ''image/png'', ''image/gif'', ''image/webp''} \<longrightarrow>
        extractText env f = extractTextFromImage env f)"
  by (auto simp add: extractText_def allSupportedTypes_def supportedImageTypes_def
        supportedDocumentTypes_def)

theorem C5_extractText_dispatch_witness:
  "extractText sampleOcr \<lparr> file_name = ''notes.txt'', file_type = ''text/plain'', file_size = 10 \<rparr>
     = (Inl (JsError ''Unsupported file type: text/plain. Please use JPEG, PNG, GIF, WebP images or PDF documents.''), [])
   \<and> extractText sampleOcr samplePdf = extractTextFromPDF sampleOcr samplePdf
   \<and> extractText sampleOcr samplePng = extractTextFromImage sampleOcr samplePng"
proof -
  have 1: "extractText sampleOcr \<lparr> file_name = ''notes.txt'', file_type = ''text/plain'', file_size = 10 \<rparr>
     = (Inl (JsError ''Unsupported file type: text/plain. Please use JPEG, PNG, GIF, WebP images or PDF documents.''), [])"
    using C5_extractText_dispatch
      [of "\<lparr> file_name = ''notes.txt'', file_type = ''text/plain'', file_size = 10 \<rparr>" sampleOcr]
    by simp
  have 2: "extractText sampleOcr samplePdf = extractTextFromPDF sampleOcr samplePdf"
    using C5_extractText_dispatch [of samplePdf sampleOcr] by (simp add: samplePdf_def)
  have 3: "extractText sampleOcr samplePng = extractTextFromImage sampleOcr samplePng"
    using C5_extractText_dispatch [of samplePng sampleOcr] by (simp add: samplePng_def)
  from 1 2 3 show ?thesis by blast
qed

text \<open>
  C6. An image of more than 10 MiB is refused with the too-large error and no
  recognition is started; for an image of at most 10 MiB recognition is started exactly
  once, and recognized text that is not blank is returned trimmed, with its confidence.
\<close>

theorem C6_image_size_limit:
  "(file_size f > 10 * 1024 * 1024 \<longrightarrow>
      extractTextFromImage env f =
        (Inl (JsError ''File size too large. Please use files smaller than 10MB.''), []))
   \<and> (file_size f \<le> 10 * 1024 * 1024 \<longrightarrow>
        snd (extractTextFromImage env f) = [RecognizeImage]
      \<and> (\<forall>text conf. recognizeImage env f = Inr (text, conf) \<and> trim text \<noteq> [] \<longrightarrow>
            (\<exists>r. fst (extractTextFromImage env f) = Inr r
                 \<and> extracted_text r = trim text \<and> confidence r = Some conf)))"
  by (cases "recognizeImage env f")
     (auto simp add: extractTextFromImage_def maxImageSize_def doRecognizeImage_def trim_def)

theorem C6_image_size_limit_witness:
  "extractTextFromImage sampleOcr \<lparr> file_name = ''poster.png'', file_type = ''image/png'', file_size = 10 * 1024 * 1024 + 1 \<rparr>
     = (Inl (JsError ''File size too large. Please use files smaller than 10MB.''), [])
   \<and> snd (extractTextFromImage sampleOcr \<lparr> file_name = ''exact.png'', file_type = ''image/png'', file_size = 10 * 1024 * 1024 \<rparr>)
       = [RecognizeImage]
   \<and> snd (extractTextFromImage sampleOcr samplePng) = [RecognizeImage]
   \<and> (\<exists>r. fst (extractTextFromImage sampleOcr samplePng) = Inr r
          \<and> extracted_text r = ''Name: Ada'' \<and> confidence r = Some 91)"
proof -
  have 1: "extractTextFromImage sampleOcr \<lparr> file_name = ''poster.png'', file_type = ''image/png'', file_size = 10 * 1024 * 1024 + 1 \<rparr>
     = (Inl (JsError ''File size too large. Please use files smaller than 10MB.''), [])"
    using C6_image_size_limit
      [of "\<lparr> file_name = ''poster.png'', file_type = ''image/png'', file_size = 10 * 1024 * 1024 + 1 \<rparr>" sampleOcr]
    by simp
  have 2: "snd (extractTextFromImage sampleOcr \<lparr> file_name = ''exact.png'', file_type = ''image/png'', file_size = 10 * 1024 * 1024 \<rparr>)
       = [RecognizeImage]"
    using C6_image_size_limit
      [of "\<lparr> file_name = ''exact.png'', file_type = ''image/png'', file_size = 10 * 1024 * 1024 \<rparr>" sampleOcr]
    by simp
  have r: "recognizeImage sampleOcr samplePng = Inr ('' Name: Ada '', 91)"
    by (simp add: sampleOcr_def)
  have t: "trim '' Name: Ada '' = ''Name: Ada''"
    by (simp add: trim_def isWhiteSpace_def)
  have s: "file_size samplePng \<le> 10 * 1024 * 1024"
    by (simp add: samplePng_def)
  from s C6_image_size_limit [of samplePng sampleOcr]
  have 3: "snd (extractTextFromImage sampleOcr samplePng) = [RecognizeImage]"
    and all: "\<forall>text conf. recognizeImage sampleOcr samplePng = Inr (text, conf) \<and> trim text \<noteq> [] \<longrightarrow>
            (\<exists>r. fst (extractTextFromImage sampleOcr samplePng) = Inr r
                 \<and> extracted_text r = trim text \<and> confidence r = Some conf)"
    by blast+
  from all r t have 4: "\<exists>r. fst (extractTextFromImage sampleOcr samplePng) = Inr r
          \<and> extracted_text r = ''Name: Ada'' \<and> confidence r = Some 91"
    by (metis list.distinct(1))
  from 1 2 3 4 show ?thesis by blast
qed


text \<open>With every page recognized, the loop visits the pages in order and collects the
  blocks of the pages whose text is not blank.\<close>

lemma pdfPages_all_recognized:
  assumes "\<forall>n. pageNum \<le> n \<and> n \<le> numPages \<longrightarrow> recognizePage env f n = Inr (texts n)"
  shows "pdfPages env f numPages pageNum acc =
           (Inr (acc @ concat (map (\<lambda>n. pageBlock n (texts n))
                                (filter (\<lambda>n. trim (texts n) \<noteq> []) [pageNum..<Suc numPages]))),
            map RecognizePage [pageNum..<Suc numPages])"
  using assms
proof (induction "Suc numPages - pageNum" arbitrary: pageNum acc)
  case 0
  then have "\<not> pageNum \<le> numPages" by simp
  then show ?case by (subst pdfPages.simps) simp
next
  case (Suc k)
  then have le: "pageNum \<le> numPages" by simp
  have here: "doRecognizePage env f pageNum = (Inr (texts pageNum), [RecognizePage pageNum])"
    using Suc.prems le by (simp add: doRecognizePage_def)
  have k: "k = Suc numPages - Suc pageNum" using Suc.hyps(2) by simp
  have rest: "\<forall>n. Suc pageNum \<le> n \<and> n \<le> numPages \<longrightarrow> recognizePage env f n = Inr (texts n)"
    using Suc.prems by simp
  note IH = Suc.hyps(1) [OF k rest]
  have upt: "[pageNum..<Suc numPages] = pageNum # [Suc pageNum..<Suc numPages]"
    using le by (simp add: upt_conv_Cons)
  show ?case
    by (subst pdfPages.simps) (simp add: le here IH upt del: upt_Suc)
qed

lemma dash_not_white: "\<not> isWhiteSpace (CHR ''-'')"
  by (simp add: isWhiteSpace_def)

lemma concat_blocks_not_blank:
  assumes "ns \<noteq> []"
  shows "trim (concat (map (\<lambda>n. pageBlock n (texts n)) ns)) \<noteq> []"
proof -
  from assms obtain n ns' where "ns = n # ns'" by (cases ns) auto
  then have "CHR ''-'' \<in> set (concat (map (\<lambda>n. pageBlock n (texts n)) ns))"
    by (simp add: pageBlock_def)
  then show ?thesis using dash_not_white by (auto simp: trim_eq_Nil_iff)
qed

text \<open>When the recognition of a page throws, the loop ends at that page with its error.\<close>

lemma pdfPages_first_failure:
  assumes "pageNum \<le> k" and "k \<le> numPages"
    and "recognizePage env f k = Inl e"
    and "\<forall>n. pageNum \<le> n \<and> n < k \<longrightarrow> recognizePage env f n = Inr (texts n)"
  shows "pdfPages env f numPages pageNum acc = (Inl e, map RecognizePage [pageNum..<Suc k])"
  using assms
proof (induction "k - pageNum" arbitrary: pageNum acc)
  case 0
  then have eq: "pageNum = k" by simp
  have here: "doRecognizePage env f k = (Inl e, [RecognizePage k])"
    using "0.prems"(3) by (simp add: doRecognizePage_def)
  show ?case
    unfolding eq using "0.prems"(2) by (subst pdfPages.simps) (simp add: here)
next
  case (Suc d)
  then have lt: "pageNum < k" by simp
  then have le: "pageNum \<le> numPages" using Suc.prems(2) by simp
  have here: "doRecognizePage env f pageNum = (Inr (texts pageNum), [RecognizePage pageNum])"
    using Suc.prems(4) lt by (simp add: doRecognizePage_def)
  have d: "d = k - Suc pageNum" using Suc.hyps(2) by simp
  have next_le: "Suc pageNum \<le> k" using lt by simp
  have rest: "\<forall>n. Suc pageNum \<le> n \<and> n < k \<longrightarrow> recognizePage env f n = Inr (texts n)"
    using Suc.prems(4) by simp
  note IH = Suc.hyps(1) [OF d next_le Suc.prems(2) Suc.prems(3) rest]
  have upt: "[pageNum..<Suc k] = pageNum # [Suc pageNum..<Suc k]"
    using lt by (simp add: upt_conv_Cons)
  show ?case
    by (subst pdfPages.simps) (simp add: le here IH upt del: upt_Suc)
qed

text \<open>
  C7, as the code has it. For a document that opens with \<open>numPages\<close> pages, the pages are
  processed in the order 1, 2, ... When every page is recognized: all \<open>numPages\<close> pages
  are processed; when some page has text that is not blank, the result is the trimmed
  concatenation, over the pages with such text in order, of a line break,
  \<open>--- Page N ---\<close>, a line break, the trimmed text of the page and a line break, and it
  carries no confidence; when no page has such text, the call fails with the error that
  no text was extracted, which the \<^verbatim>\<open>catch\<close> block of the function prefixes with
  \<open>Failed to extract text from PDF:\<close>. When the recognition of a page throws, the pages
  after it are not processed and the call fails with the error of that page as the
  \<^verbatim>\<open>catch\<close> block rewrites it, whatever the pages before it gave.
\<close>

theorem C7_pdf_pages:
  assumes "openPdf env f = Inr numPages"
  shows "((\<forall>n. 1 \<le> n \<and> n \<le> numPages \<longrightarrow> recognizePage env f n = Inr (texts n)) \<longrightarrow>
          snd (extractTextFromPDF env f) = OpenPdf # map RecognizePage [1..<Suc numPages]
        \<and> (filter (\<lambda>n. trim (texts n) \<noteq> []) [1..<Suc numPages] \<noteq> [] \<longrightarrow>
             (\<exists>r. fst (extractTextFromPDF env f) = Inr r
                  \<and> extracted_text r =
                      trim (concat (map (\<lambda>n. [CHR 0x0A] @ ''--- Page '' @ showNat n @ '' ---''
                                                @ [CHR 0x0A] @ trim (texts n) @ [CHR 0x0A])
                                        (filter (\<lambda>n. trim (texts n) \<noteq> []) [1..<Suc numPages])))
                  \<and> confidence r = None))
        \<and> (filter (\<lambda>n. trim (texts n) \<noteq> []) [1..<Suc numPages] = [] \<longrightarrow>
             fst (extractTextFromPDF env f) =
               Inl (JsError (''Failed to extract text from PDF: ''
                      @ ''No text was extracted from the PDF. Please ensure the document contains readable text.''))))
       \<and> (\<forall>k e. 1 \<le> k \<and> k \<le> numPages \<and> recognizePage env f k = Inl e
                 \<and> (\<forall>n. 1 \<le> n \<and> n < k \<longrightarrow> recognizePage env f n = Inr (texts n)) \<longrightarrow>
            extractTextFromPDF env f =
              (Inl (if includes_js (message e) ''Invalid PDF''
                    then JsError ''Invalid or corrupted PDF file. Please try a different document.''
                    else JsError (''Failed to extract text from PDF: '' @ message e)),
               OpenPdf # map RecognizePage [1..<Suc k]))"
proof -
  let ?inc = "filter (\<lambda>n. trim (texts n) \<noteq> []) [1..<Suc numPages]"
  let ?body = "concat (map (\<lambda>n. pageBlock n (texts n)) ?inc)"
  have opened: "doOpenPdf env f = (Inr numPages, [OpenPdf])"
    using assms(1) by (simp add: doOpenPdf_def)
  have body_eq: "?body = concat (map (\<lambda>n. [CHR 0x0A] @ ''--- Page '' @ showNat n @ '' ---''
                                               @ [CHR 0x0A] @ trim (texts n) @ [CHR 0x0A]) ?inc)"
    by (simp add: pageBlock_def)
  have recognized: "snd (extractTextFromPDF env f) = OpenPdf # map RecognizePage [1..<Suc numPages]
        \<and> (?inc \<noteq> [] \<longrightarrow>
             (\<exists>r. fst (extractTextFromPDF env f) = Inr r \<and> extracted_text r = trim ?body
                  \<and> confidence r = None))
        \<and> (?inc = [] \<longrightarrow>
             fst (extractTextFromPDF env f) =
               Inl (JsError (''Failed to extract text from PDF: ''
                      @ ''No text was extracted from the PDF. Please ensure the document contains readable text.'')))"
    if all: "\<forall>n. 1 \<le> n \<and> n \<le> numPages \<longrightarrow> recognizePage env f n = Inr (texts n)"
  proof -
    have "pdfPages env f numPages 1 [] = (Inr ?body, map RecognizePage [1..<Suc numPages])"
      using pdfPages_all_recognized [of 1 numPages env f texts "[]"] all by simp
    then have loop: "pdfPages env f numPages (Suc 0) [] =
        (Inr ?body, map RecognizePage [Suc 0..<Suc numPages])"
      by simp
    have events: "snd (extractTextFromPDF env f) = OpenPdf # map RecognizePage [1..<Suc numPages]"
      by (simp add: extractTextFromPDF_def opened loop del: upt_Suc)
    have nonblank: "?inc \<noteq> [] \<longrightarrow>
          (\<exists>r. fst (extractTextFromPDF env f) = Inr r \<and> extracted_text r = trim ?body
               \<and> confidence r = None)"
    proof
      assume "?inc \<noteq> []"
      then have "trim ?body \<noteq> []" by (rule concat_blocks_not_blank)
      then show "\<exists>r. fst (extractTextFromPDF env f) = Inr r \<and> extracted_text r = trim ?body
               \<and> confidence r = None"
        by (simp add: extractTextFromPDF_def opened loop del: upt_Suc)
    qed
    have blank: "?inc = [] \<longrightarrow>
          fst (extractTextFromPDF env f) =
            Inl (JsError (''Failed to extract text from PDF: ''
                   @ ''No text was extracted from the PDF. Please ensure the document contains readable text.''))"
    proof
      assume e: "?inc = []"
      have "trim [] = []" by (simp add: trim_def)
      with e have fails: "fst (extractTextFromPDF env f) =
          Inl (pdfCatch (JsError ''No text was extracted from the PDF. Please ensure the document contains readable text.''))"
        by (simp add: extractTextFromPDF_def opened loop del: upt_Suc)
      have "pdfCatch (JsError ''No text was extracted from the PDF. Please ensure the document contains readable text.'')
          = JsError (''Failed to extract text from PDF: ''
                   @ ''No text was extracted from the PDF. Please ensure the document contains readable text.'')"
        by (simp add: pdfCatch_def)
      with fails show "fst (extractTextFromPDF env f) =
            Inl (JsError (''Failed to extract text from PDF: ''
                   @ ''No text was extracted from the PDF. Please ensure the document contains readable text.''))"
        by simp
    qed
    from events nonblank blank show ?thesis by blast
  qed
  have thrown: "extractTextFromPDF env f =
              (Inl (if includes_js (message e) ''Invalid PDF''
                    then JsError ''Invalid or corrupted PDF file. Please try a different document.''
                    else JsError (''Failed to extract text from PDF: '' @ message e)),
               OpenPdf # map RecognizePage [1..<Suc k])"
    if "1 \<le> k \<and> k \<le> numPages \<and> recognizePage env f k = Inl e
                 \<and> (\<forall>n. 1 \<le> n \<and> n < k \<longrightarrow> recognizePage env f n = Inr (texts n))"
    for k e
  proof -
    have "pdfPages env f numPages 1 [] = (Inl e, map RecognizePage [1..<Suc k])"
      using pdfPages_first_failure [of 1 k numPages env f e texts "[]"] that by blast
    then have loop: "pdfPages env f numPages (Suc 0) [] = (Inl e, map RecognizePage [Suc 0..<Suc k])"
      by simp
    show ?thesis
      by (simp add: extractTextFromPDF_def opened loop pdfCatch_def del: upt_Suc)
  qed
  from recognized thrown show ?thesis
    unfolding body_eq by blast
qed

theorem C7_pdf_pages_witness:
  "openPdf sampleOcr samplePdf = Inr 3
   \<and> snd (extractTextFromPDF sampleOcr samplePdf)
       = [OpenPdf, RecognizePage 1, RecognizePage 2, RecognizePage 3]
   \<and> (\<exists>r. fst (extractTextFromPDF sampleOcr samplePdf) = Inr r
          \<and> extracted_text r =
              ''--- Page 1 ---'' @ [CHR 0x0A] @ ''Name: Ada'' @ [CHR 0x0A, CHR 0x0A]
              @ ''--- Page 3 ---'' @ [CHR 0x0A] @ ''Q1: 42''
          \<and> confidence r = None)
   \<and> fst (extractTextFromPDF blankOcr samplePdf) =
       Inl (JsError (''Failed to extract text from PDF: ''
              @ ''No text was extracted from the PDF. Please ensure the document contains readable text.''))
   \<and> recognizePage brokenPageOcr samplePdf 2 = Inl (JsError ''boom'')
   \<and> extractTextFromPDF brokenPageOcr samplePdf =
       (Inl (JsError ''Failed to extract text from PDF: boom''),
        [OpenPdf, RecognizePage 1, RecognizePage 2])"
proof -
  have o: "openPdf sampleOcr samplePdf = Inr 3" and ob: "openPdf blankOcr samplePdf = Inr 3"
    and ok: "openPdf brokenPageOcr samplePdf = Inr 3"
    by (simp_all add: sampleOcr_def blankOcr_def brokenPageOcr_def)
  have p: "\<forall>n. 1 \<le> n \<and> n \<le> 3 \<longrightarrow> recognizePage sampleOcr samplePdf n = Inr (samplePages n)"
    by (simp add: sampleOcr_def)
  have pb: "\<forall>n. 1 \<le> n \<and> n \<le> 3 \<longrightarrow> recognizePage blankOcr samplePdf n = Inr ((\<lambda>n. ''  '') n)"
    by (simp add: sampleOcr_def blankOcr_def)
  have k2: "recognizePage brokenPageOcr samplePdf 2 = Inl (JsError ''boom'')"
    by (simp add: sampleOcr_def brokenPageOcr_def)
  have pk: "\<forall>n. 1 \<le> n \<and> n < 2 \<longrightarrow> recognizePage brokenPageOcr samplePdf n = Inr (samplePages n)"
    by (simp add: sampleOcr_def brokenPageOcr_def)
  have u: "[1..<Suc 3] = [1, 2, 3]" and u2: "[1..<Suc 2] = [1, 2]" by code_simp+
  have inc: "filter (\<lambda>n. trim (samplePages n) \<noteq> []) [1, 2, 3] = [1, 3]"
    by code_simp
  have incb: "filter (\<lambda>n. trim ((\<lambda>n. ''  '') n) \<noteq> []) [1, 2, 3] = []"
    by code_simp
  have joined: "trim (concat (map (\<lambda>n. [CHR 0x0A] @ ''--- Page '' @ showNat n @ '' ---''
                                  @ [CHR 0x0A] @ trim (samplePages n) @ [CHR 0x0A]) [1, 3]))
      = ''--- Page 1 ---'' @ [CHR 0x0A] @ ''Name: Ada'' @ [CHR 0x0A, CHR 0x0A]
              @ ''--- Page 3 ---'' @ [CHR 0x0A] @ ''Q1: 42''"
    by code_simp
  have nb: "\<not> includes_js (message (JsError ''boom'')) ''Invalid PDF''"
    by simp
  from C7_pdf_pages [OF o, of samplePages] p
  have 1: "snd (extractTextFromPDF sampleOcr samplePdf)
     = [OpenPdf, RecognizePage 1, RecognizePage 2, RecognizePage 3]"
    and 2: "\<exists>r. fst (extractTextFromPDF sampleOcr samplePdf) = Inr r
          \<and> extracted_text r =
              ''--- Page 1 ---'' @ [CHR 0x0A] @ ''Name: Ada'' @ [CHR 0x0A, CHR 0x0A]
              @ ''--- Page 3 ---'' @ [CHR 0x0A] @ ''Q1: 42''
          \<and> confidence r = None"
    unfolding u inc joined by simp_all
  from C7_pdf_pages [OF ob, of "\<lambda>n. ''  ''"] pb
  have 3: "fst (extractTextFromPDF blankOcr samplePdf) =
       Inl (JsError (''Failed to extract text from PDF: ''
              @ ''No text was extracted from the PDF. Please ensure the document contains readable text.''))"
    unfolding u incb by simp
  have h2: "(1::nat) \<le> 2 \<and> (2::nat) \<le> 3 \<and> recognizePage brokenPageOcr samplePdf 2 = Inl (JsError ''boom'')
      \<and> (\<forall>n. 1 \<le> n \<and> n < 2 \<longrightarrow> recognizePage brokenPageOcr samplePdf n = Inr (samplePages n))"
    using k2 pk by simp
  note broken = conjunct2 [OF C7_pdf_pages [OF ok, of samplePages], rule_format, OF h2]
  from broken
  have "extractTextFromPDF brokenPageOcr samplePdf =
              (Inl (if includes_js (message (JsError ''boom'')) ''Invalid PDF''
                    then JsError ''Invalid or corrupted PDF file. Please try a different document.''
                    else JsError (''Failed to extract text from PDF: '' @ message (JsError ''boom''))),
               OpenPdf # map RecognizePage [1..<Suc 2])" .
  then have 4: "extractTextFromPDF brokenPageOcr samplePdf =
       (Inl (JsError ''Failed to extract text from PDF: boom''),
        [OpenPdf, RecognizePage 1, RecognizePage 2])"
    unfolding u2 by simp
  from o 1 2 3 k2 4 show ?thesis by blast
qed

text \<open>
  The claim as it is stated fails on a document that opens and has a page whose
  recognition throws. With three pages of which the second throws, the third page is
  never processed and the pages before it are lost. With one page, which throws, no page
  gives text that is not blank, and the error is not the error that no text was
  extracted.
\<close>

theorem C7_all_pages_counterexample:
  "openPdf brokenPageOcr samplePdf = Inr 3
   \<and> extractTextFromPDF brokenPageOcr samplePdf =
       (Inl (JsError ''Failed to extract text from PDF: boom''),
        [OpenPdf, RecognizePage 1, RecognizePage 2])
   \<and> RecognizePage 3 \<notin> set (snd (extractTextFromPDF brokenPageOcr samplePdf))
   \<and> openPdf unreadableOcr samplePdf = Inr 1
   \<and> recognizePage unreadableOcr samplePdf 1 = Inl (JsError ''boom'')
   \<and> extractTextFromPDF unreadableOcr samplePdf =
       (Inl (JsError ''Failed to extract text from PDF: boom''), [OpenPdf, RecognizePage 1])
   \<and> fst (extractTextFromPDF unreadableOcr samplePdf) \<noteq>
       Inl (JsError (''Failed to extract text from PDF: ''
              @ ''No text was extracted from the PDF. Please ensure the document contains readable text.''))"
proof -
  have o3: "doOpenPdf brokenPageOcr samplePdf = (Inr 3, [OpenPdf])"
    and o1: "doOpenPdf unreadableOcr samplePdf = (Inr 1, [OpenPdf])"
    by (simp_all add: doOpenPdf_def sampleOcr_def brokenPageOcr_def unreadableOcr_def)
  have b2: "recognizePage brokenPageOcr samplePdf 2 = Inl (JsError ''boom'')"
    and b1: "\<forall>n. Suc 0 \<le> n \<and> n < 2 \<longrightarrow> recognizePage brokenPageOcr samplePdf n = Inr (samplePages n)"
    and u1: "recognizePage unreadableOcr samplePdf (Suc 0) = Inl (JsError ''boom'')"
    by (simp_all add: sampleOcr_def brokenPageOcr_def unreadableOcr_def)
  have u2: "[Suc 0..<3] = [Suc 0, 2]" and u1': "[Suc 0..<Suc (Suc 0)] = [Suc 0]" by code_simp+
  have l3: "pdfPages brokenPageOcr samplePdf 3 (Suc 0) [] =
      (Inl (JsError ''boom''), [RecognizePage 1, RecognizePage 2])"
    using pdfPages_first_failure [of "Suc 0" 2 3 brokenPageOcr samplePdf "JsError ''boom''" samplePages "[]"]
      b2 b1 by (simp add: u2 del: upt_Suc)
  have l1: "pdfPages unreadableOcr samplePdf (Suc 0) (Suc 0) [] =
      (Inl (JsError ''boom''), [RecognizePage 1])"
    using pdfPages_first_failure [of "Suc 0" "Suc 0" "Suc 0" unreadableOcr samplePdf "JsError ''boom''" samplePages "[]"]
      u1 by (simp add: u1' del: upt_Suc)
  have e3: "extractTextFromPDF brokenPageOcr samplePdf =
       (Inl (JsError ''Failed to extract text from PDF: boom''),
        [OpenPdf, RecognizePage 1, RecognizePage 2])"
    by (simp add: extractTextFromPDF_def o3 l3 pdfCatch_def)
  have e1: "extractTextFromPDF unreadableOcr samplePdf =
       (Inl (JsError ''Failed to extract text from PDF: boom''), [OpenPdf, RecognizePage 1])"
    by (simp add: extractTextFromPDF_def o1 l1 pdfCatch_def)
  have 1: "openPdf brokenPageOcr samplePdf = Inr 3" and 2: "openPdf unreadableOcr samplePdf = Inr 1"
    and 3: "recognizePage unreadableOcr samplePdf 1 = Inl (JsError ''boom'')"
    by (simp_all add: sampleOcr_def brokenPageOcr_def unreadableOcr_def)
  show ?thesis
    unfolding e3 e1 using 1 2 3 by simp
qed


section \<open>Claims about the validation of a submission file\<close>

text \<open>
  C8. A file of more than 10 MiB is invalid with the size error, whatever its type and
  name; a file of 9 MiB of type \<open>image/png\<close> is valid.
\<close>

theorem C8_submission_size:
  "(file_size f > 10 * 1024 * 1024 \<longrightarrow>
      validateSubmissionFile f =
        \<lparr> valid = False, validation_error = Some ''File size exceeds 10MB limit'' \<rparr>)
   \<and> (file_size f = 9 * 1024 * 1024 \<and> file_type f = ''image/png'' \<longrightarrow>
        validateSubmissionFile f = \<lparr> valid = True, validation_error = None \<rparr>)"
  by (simp add: validateSubmissionFile_def maxSize_def allowedTypes_def)

theorem C8_submission_size_witness:
  "validateSubmissionFile \<lparr> file_name = ''big.png'', file_type = ''image/png'', file_size = 11 * 1024 * 1024 \<rparr>
     = \<lparr> valid = False, validation_error = Some ''File size exceeds 10MB limit'' \<rparr>
   \<and> validateSubmissionFile samplePng = \<lparr> valid = True, validation_error = None \<rparr>"
proof -
  have 1: "validateSubmissionFile \<lparr> file_name = ''big.png'', file_type = ''image/png'', file_size = 11 * 1024 * 1024 \<rparr>
     = \<lparr> valid = False, validation_error = Some ''File size exceeds 10MB limit'' \<rparr>"
    using C8_submission_size
      [of "\<lparr> file_name = ''big.png'', file_type = ''image/png'', file_size = 11 * 1024 * 1024 \<rparr>"]
    by simp
  have 2: "validateSubmissionFile samplePng = \<lparr> valid = True, validation_error = None \<rparr>"
    using C8_submission_size [of samplePng] by (simp add: samplePng_def)
  from 1 2 show ?thesis by blast
qed


text \<open>
  C10. A file of at most 10 MiB whose name ends in a dot followed by an extension that,
  in lower case, is one of \<open>pdf\<close>, \<open>png\<close>, \<open>jpg\<close>, \<open>jpeg\<close>, \<open>gif\<close>, \<open>webp\<close>, \<open>avif\<close> is valid,
  whatever its declared content type.
\<close>

theorem C10_extension_accepted:
  assumes "file_size f \<le> 10 * 1024 * 1024"
    and "file_name f = base @ ''.'' @ ext"
    and "CHR ''.'' \<notin> set ext"
    and "toLowerCase ext \<in> {''pdf'', ''png'', ''jpg'', ''jpeg'', ''gif'', ''webp'', ''avif''}"
  shows "validateSubmissionFile f = \<lparr> valid = True, validation_error = None \<rparr>"
proof -
  have "pop (split_js (CHR ''.'') (file_name f)) = Some ext"
    using assms(2,3) pop_split_js_extension [of "CHR ''.''" ext base] by simp
  then have "fileExtension (file_name f) = toLowerCase ext"
    by (simp add: fileExtension_def)
  then have "fileExtension (file_name f) \<in> set allowedSubmissionExtensions"
    using assms(4) by (simp add: allowedSubmissionExtensions_def)
  then show ?thesis
    using assms(1) by (simp add: validateSubmissionFile_def maxSize_def)
qed

theorem C10_extension_accepted_witness:
  "''application/octet-stream'' \<notin> set allowedTypes
   \<and> validateSubmissionFile
        \<lparr> file_name = ''Essay.final.PDF'', file_type = ''application/octet-stream'', file_size = 2048 \<rparr>
       = \<lparr> valid = True, validation_error = None \<rparr>
   \<and> validateSubmissionFile \<lparr> file_name = ''photo.Jpeg'', file_type = '''', file_size = 10 * 1024 * 1024 \<rparr>
       = \<lparr> valid = True, validation_error = None \<rparr>"
proof -
  have l: "toLowerCase ''PDF'' = ''pdf''" and l2: "toLowerCase ''Jpeg'' = ''jpeg''"
    by code_simp+
  have n: "''application/octet-stream'' \<notin> set allowedTypes"
    by (simp add: allowedTypes_def)
  have 1: "validateSubmissionFile
        \<lparr> file_name = ''Essay.final.PDF'', file_type = ''application/octet-stream'', file_size = 2048 \<rparr>
       = \<lparr> valid = True, validation_error = None \<rparr>"
    using l C10_extension_accepted
      [of "\<lparr> file_name = ''Essay.final.PDF'', file_type = ''application/octet-stream'', file_size = 2048 \<rparr>"
          "''Essay.final''" "''PDF''"]
    by simp
  have 2: "validateSubmissionFile \<lparr> file_name = ''photo.Jpeg'', file_type = '''', file_size = 10 * 1024 * 1024 \<rparr>
       = \<lparr> valid = True, validation_error = None \<rparr>"
    using l2 C10_extension_accepted
      [of "\<lparr> file_name = ''photo.Jpeg'', file_type = '''', file_size = 10 * 1024 * 1024 \<rparr>"
          "''photo''" "''Jpeg''"]
    by simp
  from n 1 2 show ?thesis by blast
qed


section \<open>Claims about the meeting view\<close>

text \<open>
  C9, as the code has it. In a view with an active meeting, a message of type
  \<open>MEETING_ENDED\<close> clears the active meeting and closes the embedded view in the handler
  itself, with the notifications of a successful end, with no request for the active
  meeting and no request to end it. The End button first asks the backend to end the
  meeting: when the backend accepts, it leaves the state and the notifications of the
  signal, after that request; when the request throws, it leaves the view as it was, the
  meeting still active, and reports the failure.
\<close>

theorem C9_meeting_ended_signal:
  assumes "activeMeeting s = Some m"
  shows "handleMessage p (Some ''MEETING_ENDED'') s =
           (s\<lparr> showMeeting := False, activeMeeting := None \<rparr>,
            ToastSuccess ''Meeting ended'' # (if hasOnClose p then [OnClose] else []))
       \<and> activeMeeting (fst (handleMessage p (Some ''MEETING_ENDED'') s)) = None
       \<and> showMeeting (fst (handleMessage p (Some ''MEETING_ENDED'') s)) = False
       \<and> \<not> polls (snd (handleMessage p (Some ''MEETING_ENDED'') s))
       \<and> (endMeeting (meeting_id m) = None \<longrightarrow>
            handleEndMeeting endMeeting p s =
              (fst (handleMessage p (Some ''MEETING_ENDED'') s),
               EndMeeting (meeting_id m) # snd (handleMessage p (Some ''MEETING_ENDED'') s)))
       \<and> (\<forall>err. endMeeting (meeting_id m) = Some err \<longrightarrow>
            handleEndMeeting endMeeting p s =
              (s, [EndMeeting (meeting_id m), ToastError ''Failed to end meeting'']))"
  using assms
  by (simp add: handleMessage_def handleEndMeeting_def polls_def callOnClose_def)

theorem C9_meeting_ended_signal_witness:
  "activeMeeting inProgress = Some sampleMeeting
   \<and> handleMessage teacherProps (Some ''MEETING_ENDED'') inProgress
       = (\<lparr> activeMeeting = None, isLoading = False, isStarting = False, showMeeting = False \<rparr>,
          [ToastSuccess ''Meeting ended'', OnClose])
   \<and> endAccepted (meeting_id sampleMeeting) = None
   \<and> handleEndMeeting endAccepted teacherProps inProgress
       = (\<lparr> activeMeeting = None, isLoading = False, isStarting = False, showMeeting = False \<rparr>,
          [EndMeeting ''m1'', ToastSuccess ''Meeting ended'', OnClose])
   \<and> endRejected (meeting_id sampleMeeting) = Some (JsError ''Failed to fetch'')
   \<and> handleEndMeeting endRejected teacherProps inProgress
       = (inProgress, [EndMeeting ''m1'', ToastError ''Failed to end meeting''])"
proof -
  have a: "activeMeeting inProgress = Some sampleMeeting"
    by (simp add: inProgress_def)
  have i: "meeting_id sampleMeeting = ''m1''"
    by (simp add: sampleMeeting_def)
  have ok: "endAccepted (meeting_id sampleMeeting) = None"
    by (simp add: endAccepted_def)
  have ko: "endRejected (meeting_id sampleMeeting) = Some (JsError ''Failed to fetch'')"
    by (simp add: endRejected_def)
  note acc = C9_meeting_ended_signal [OF a, of teacherProps endAccepted]
  note rej = C9_meeting_ended_signal [OF a, of teacherProps endRejected]
  from acc have h: "handleMessage teacherProps (Some ''MEETING_ENDED'') inProgress
       = (\<lparr> activeMeeting = None, isLoading = False, isStarting = False, showMeeting = False \<rparr>,
          [ToastSuccess ''Meeting ended'', OnClose])"
    by (simp add: inProgress_def teacherProps_def)
  from acc ok have "handleEndMeeting endAccepted teacherProps inProgress =
              (fst (handleMessage teacherProps (Some ''MEETING_ENDED'') inProgress),
               EndMeeting (meeting_id sampleMeeting)
                 # snd (handleMessage teacherProps (Some ''MEETING_ENDED'') inProgress))"
    by blast
  then have e: "handleEndMeeting endAccepted teacherProps inProgress
       = (\<lparr> activeMeeting = None, isLoading = False, isStarting = False, showMeeting = False \<rparr>,
          [EndMeeting ''m1'', ToastSuccess ''Meeting ended'', OnClose])"
    by (simp add: h i)
  from rej ko have "handleEndMeeting endRejected teacherProps inProgress
       = (inProgress, [EndMeeting (meeting_id sampleMeeting), ToastError ''Failed to end meeting''])"
    by blast
  then have r: "handleEndMeeting endRejected teacherProps inProgress
       = (inProgress, [EndMeeting ''m1'', ToastError ''Failed to end meeting''])"
    by (simp add: i)
  from a h ok e ko r show ?thesis by blast
qed

text \<open>
  The claim as it is stated fails on a view with an active meeting: the End button
  makes a request that the signal does not make, and when that request throws it keeps
  the meeting and reports a failure, where the signal clears the meeting and reports
  that it ended.
\<close>

theorem C9_identical_counterexample:
  "activeMeeting inProgress = Some sampleMeeting
   \<and> activeMeeting (fst (handleMessage teacherProps (Some ''MEETING_ENDED'') inProgress)) = None
   \<and> snd (handleMessage teacherProps (Some ''MEETING_ENDED'') inProgress)
       = [ToastSuccess ''Meeting ended'', OnClose]
   \<and> activeMeeting (fst (handleEndMeeting endRejected teacherProps inProgress)) = Some sampleMeeting
   \<and> snd (handleEndMeeting endRejected teacherProps inProgress)
       = [EndMeeting ''m1'', ToastError ''Failed to end meeting'']
   \<and> handleEndMeeting endRejected teacherProps inProgress
       \<noteq> handleMessage teacherProps (Some ''MEETING_ENDED'') inProgress
   \<and> handleEndMeeting endAccepted teacherProps inProgress
       \<noteq> handleMessage teacherProps (Some ''MEETING_ENDED'') inProgress"
  by (simp add: handleMessage_def handleEndMeeting_def callOnClose_def inProgress_def
      teacherProps_def sampleMeeting_def endRejected_def endAccepted_def)

end
